theory Spec2Isabelle
  imports Main "HOL-Library.Word" "HOL-Library.AList" "HOL-Library.Char_ord"
    "HOL-Library.List_Lexorder"
begin

section \<open>Python values shared by the modules\<close>

text \<open>
  A Python \<open>str\<close> is modelled as a \<^typ>\<open>string\<close>. Exceptions are values of the
  type \<open>exn\<close>; a function that can raise returns \<open>exn + 'a\<close>, with \<open>Inl\<close> for the
  exception that leaves the function.
\<close>

datatype exn =
    ValueError
  | TypeError
  | AttributeError
  | IndexError
  | KeyError
  | StopIteration
  | StructError
  | UnicodeEncodeError
  | XPathEvalError
  | YAMLError
  | OSError

definition startswith :: "string \<Rightarrow> string \<Rightarrow> bool" where
  "startswith s p = (take (length p) s = p)"

section \<open>mapper/vocabulary.py: the code-system resolver\<close>

text \<open>
  The dict literal of \<open>oid_to_vocabulary_id\<close>, entry by entry and in the order of the
  source. \<open>mapping.get(oid, "")\<close> is the lookup with the empty string as default.
\<close>

definition oid_mapping :: "(string \<times> string) list" where
  "oid_mapping =
    [(''2.16.840.1.113883.6.96'', ''SNOMED''),
     (''2.16.840.1.113883.6.88'', ''RxNorm''),
     (''2.16.840.1.113883.6.1'', ''LOINC''),
     (''2.16.840.1.113883.6.90'', ''ICD10CM''),
     (''2.16.840.1.113883.6.103'', ''ICD9CM''),
     (''2.16.840.1.113883.6.12'', ''CPT4''),
     (''2.16.840.1.113883.6.14'', ''HCPCS''),
     (''2.16.840.1.113883.6.13'', ''HCPCS''),
     (''2.16.840.1.113883.12.292'', ''CVX''),
     (''2.16.840.1.113883.6.59'', ''CVX''),
     (''2.16.840.1.113883.6.69'', ''NDC''),
     (''2.16.840.1.113883.4.9'', ''UNII''),
     (''2.16.840.1.113883.3.26.1.5'', ''NDFRT''),
     (''2.16.840.1.113883.3.26.1.1'', ''NCI''),
     (''2.16.840.1.113883.5.4'', ''ActCode''),
     (''2.16.840.1.113883.5.112'', ''RouteOfAdministration''),
     (''SNOMED'', ''SNOMED''),
     (''SNOMED CT'', ''SNOMED''),
     (''SNOMEDCT'', ''SNOMED''),
     (''RxNorm'', ''RxNorm''),
     (''LOINC'', ''LOINC''),
     (''ICD10CM'', ''ICD10CM''),
     (''ICD-10-CM'', ''ICD10CM''),
     (''ICD10'', ''ICD10CM''),
     (''ICD9CM'', ''ICD9CM''),
     (''ICD-9-CM'', ''ICD9CM''),
     (''ICD9'', ''ICD9CM''),
     (''CPT4'', ''CPT4''),
     (''CPT'', ''CPT4''),
     (''CPT-4'', ''CPT4''),
     (''HCPCS'', ''HCPCS''),
     (''CVX'', ''CVX''),
     (''NDC'', ''NDC''),
     (''UNII'', ''UNII''),
     (''NDFRT'', ''NDFRT''),
     (''NDF-RT'', ''NDFRT''),
     (''NCI'', ''NCI''),
     (''NCIt'', ''NCI''),
     (''ActCode'', ''ActCode''),
     (''ASSERTION'', ''ActCode''),
     (''RouteOfAdministration'', ''RouteOfAdministration'')]"

definition oid_to_vocabulary_id :: "string \<Rightarrow> string" where
  "oid_to_vocabulary_id oid =
     (case map_of oid_mapping oid of None \<Rightarrow> '''' | Some v \<Rightarrow> v)"

text \<open>The fourteen canonical vocabulary ids the resolver is required to support.\<close>

definition canonical_vocabulary_ids :: "string list" where
  "canonical_vocabulary_ids =
    [''SNOMED'', ''RxNorm'', ''LOINC'', ''ICD10CM'', ''ICD9CM'', ''CPT4'', ''HCPCS'',
     ''CVX'', ''NDC'', ''UNII'', ''NDFRT'', ''NCI'', ''ActCode'', ''RouteOfAdministration'']"

section \<open>mapper/vocab\_loader.py: the vocabulary index\<close>

record Concept =
  concept_id :: int
  concept_name :: string
  domain_id :: string
  vocabulary_id :: string
  concept_class_id :: string
  standard_concept :: string
  concept_code :: string

text \<open>
  The three dictionaries of a \<open>VocabLoader\<close>. The source names them with a leading
  underscore, which an Isabelle name cannot have.
\<close>

record VocabLoader =
  concept_index :: "string \<rightharpoonup> Concept"
  concept_by_id :: "int \<rightharpoonup> Concept"
  maps_to :: "int \<rightharpoonup> int list"

definition concept_key :: "string \<Rightarrow> string \<Rightarrow> string" where
  "concept_key vocab_id code = vocab_id @ ''|'' @ code"

definition lookup_concept :: "VocabLoader \<Rightarrow> string \<Rightarrow> string \<Rightarrow> Concept option" where
  "lookup_concept L vocab_id code = concept_index L (concept_key vocab_id code)"

definition lookup_concept_by_id :: "VocabLoader \<Rightarrow> int \<Rightarrow> Concept option" where
  "lookup_concept_by_id L cid = concept_by_id L cid"

text \<open>\<open>self._maps_to.get(concept_id, [])\<close>.\<close>

definition maps_to_get :: "VocabLoader \<Rightarrow> int \<Rightarrow> int list" where
  "maps_to_get L cid = (case maps_to L cid of None \<Rightarrow> [] | Some ts \<Rightarrow> ts)"

definition get_standard_concept_ids :: "VocabLoader \<Rightarrow> string \<Rightarrow> string \<Rightarrow> int list" where
  "get_standard_concept_ids L vocab_id code =
     (case lookup_concept L vocab_id code of
        None \<Rightarrow> []
      | Some concept \<Rightarrow>
          if standard_concept concept = ''S'' then [concept_id concept]
          else (let target_ids = maps_to_get L (concept_id concept)
                in if target_ids \<noteq> [] then target_ids else [concept_id concept]))"

definition get_standard_concept_id :: "VocabLoader \<Rightarrow> string \<Rightarrow> string \<Rightarrow> int" where
  "get_standard_concept_id L vocab_id code =
     (case get_standard_concept_ids L vocab_id code of [] \<Rightarrow> 0 | i # _ \<Rightarrow> i)"

definition get_concept_domain :: "VocabLoader \<Rightarrow> int \<Rightarrow> string" where
  "get_concept_domain L cid =
     (case concept_by_id L cid of None \<Rightarrow> '''' | Some concept \<Rightarrow> domain_id concept)"

text \<open>
  \<open>load_concept_relationships\<close>: the rows of the tab-delimited file as the csv reader
  yields them, the header row first. The built-in \<open>int()\<close> on a string is the
  parameter \<open>py_int\<close>, where \<open>None\<close> stands for its \<open>ValueError\<close>. One row of the loop
  body is \<open>relationship_row\<close>; it returns the updated index and whether the row was
  counted.
\<close>

definition relationship_row ::
  "(string \<Rightarrow> int option) \<Rightarrow> VocabLoader \<Rightarrow> string list \<Rightarrow> VocabLoader \<times> bool" where
  "relationship_row py_int L row =
     (if length row < 6 then (L, False)
      else if row ! 2 \<noteq> ''Maps to'' then (L, False)
      else if row ! 5 \<noteq> '''' then (L, False)
      else (case py_int (row ! 0) of
              None \<Rightarrow> (L, False)
            | Some source_id \<Rightarrow>
                (case py_int (row ! 1) of
                   None \<Rightarrow> (L, False)
                 | Some target_id \<Rightarrow>
                     if concept_by_id L source_id \<noteq> None
                     then (L\<lparr>maps_to := (maps_to L)(source_id \<mapsto> maps_to_get L source_id @ [target_id])\<rparr>,
                           True)
                     else (L, False))))"

fun relationship_rows ::
  "(string \<Rightarrow> int option) \<Rightarrow> VocabLoader \<Rightarrow> int \<Rightarrow> string list list \<Rightarrow> VocabLoader \<times> int" where
  "relationship_rows py_int L count [] = (L, count)"
| "relationship_rows py_int L count (row # rows) =
     (case relationship_row py_int L row of
        (L', counted) \<Rightarrow> relationship_rows py_int L' (if counted then count + 1 else count) rows)"

definition load_concept_relationships ::
  "(string \<Rightarrow> int option) \<Rightarrow> VocabLoader \<Rightarrow> string list list \<Rightarrow> exn + (VocabLoader \<times> int)" where
  "load_concept_relationships py_int L file =
     (case file of
        [] \<Rightarrow> Inl StopIteration
      | header # rows \<Rightarrow>
          (case header of
             [] \<Rightarrow> Inl IndexError
           | h0 # _ \<Rightarrow>
               if \<not> startswith h0 ''concept_id_1'' then Inl ValueError
               else Inr (relationship_rows py_int L 0 rows)))"

text \<open>
  The live \<open>Maps to\<close> edges of a file for one source concept, in the order of the rows:
  the rows with at least six fields, relationship \<open>Maps to\<close>, an empty invalid-reason,
  two parsable ids, and a source that the index holds.
\<close>

definition live_edge :: "(string \<Rightarrow> int option) \<Rightarrow> VocabLoader \<Rightarrow> int \<Rightarrow> string list \<Rightarrow> bool" where
  "live_edge py_int L cid row \<longleftrightarrow>
     6 \<le> length row \<and> row ! 2 = ''Maps to'' \<and> row ! 5 = '''' \<and>
     py_int (row ! 0) = Some cid \<and> py_int (row ! 1) \<noteq> None \<and> concept_by_id L cid \<noteq> None"

definition live_targets ::
  "(string \<Rightarrow> int option) \<Rightarrow> VocabLoader \<Rightarrow> string list list \<Rightarrow> int \<Rightarrow> int list" where
  "live_targets py_int L rows cid =
     map (\<lambda>row. the (py_int (row ! 1))) (filter (live_edge py_int L cid) rows)"


section \<open>omop/ids.py: deterministic identifiers\<close>

text \<open>
  \<open>generate_id\<close> hashes the UTF-8 bytes of its arguments. For this function an argument is
  the list of the Unicode code points of the Python string, so that the encoding of
  every string is covered: one to four bytes per code point, and \<open>UnicodeEncodeError\<close>
  for a surrogate, which \<open>str.encode("utf-8")\<close> refuses. A number from \<open>0x110000\<close> on is
  not a code point and no Python string holds it.
\<close>

type_synonym byte = "8 word"

definition utf8_encode_char :: "nat \<Rightarrow> exn + byte list" where
  "utf8_encode_char c =
     (if c < 0x80 then Inr [of_nat c]
      else if c < 0x800 then Inr [of_nat (0xC0 + c div 64), of_nat (0x80 + c mod 64)]
      else if 0xD800 \<le> c \<and> c \<le> 0xDFFF then Inl UnicodeEncodeError
      else if c < 0x10000 then
        Inr [of_nat (0xE0 + c div 4096), of_nat (0x80 + (c div 64) mod 64), of_nat (0x80 + c mod 64)]
      else if c < 0x110000 then
        Inr [of_nat (0xF0 + c div 262144), of_nat (0x80 + (c div 4096) mod 64),
             of_nat (0x80 + (c div 64) mod 64), of_nat (0x80 + c mod 64)]
      else Inl UnicodeEncodeError)"

fun utf8_encode :: "nat list \<Rightarrow> exn + byte list" where
  "utf8_encode [] = Inr []"
| "utf8_encode (c # cs) =
     (case utf8_encode_char c of
        Inl e \<Rightarrow> Inl e
      | Inr b \<Rightarrow> (case utf8_encode cs of Inl e \<Rightarrow> Inl e | Inr bs \<Rightarrow> Inr (b @ bs)))"

text \<open>
  The hash object is the sequence of bytes fed to it so far: \<open>h.update(b)\<close> appends, and
  \<open>h.digest()\<close> applies the digest function of \<open>hashlib\<close>, the parameter \<open>sha256\<close>, to the
  whole sequence. \<open>update_values\<close> is the loop over the arguments.
\<close>

fun update_values :: "byte list \<Rightarrow> nat list list \<Rightarrow> exn + byte list" where
  "update_values h [] = Inr h"
| "update_values h (v # vs) =
     (case utf8_encode v of
        Inl e \<Rightarrow> Inl e
      | Inr b \<Rightarrow> update_values ((h @ b) @ [0]) vs)"

text \<open>\<open>struct.unpack(">Q", b)[0]\<close>: exactly eight bytes, most significant first.\<close>

definition unpack_Q :: "byte list \<Rightarrow> exn + int" where
  "unpack_Q b =
     (if length b \<noteq> 8 then Inl StructError
      else Inr (foldl (\<lambda>acc x. acc * 256 + uint x) 0 b))"

definition generate_id :: "(byte list \<Rightarrow> byte list) \<Rightarrow> nat list list \<Rightarrow> exn + int" where
  "generate_id sha256 vals =
     (case update_values [] vals of
        Inl e \<Rightarrow> Inl e
      | Inr h \<Rightarrow>
          (let digest = sha256 h
           in case unpack_Q (take 8 digest) of
                Inl e \<Rightarrow> Inl e
              | Inr raw_id \<Rightarrow>
                  (let raw_id' = (if raw_id > 2 ^ 63 - 1 then raw_id - 2 ^ 64 else raw_id)
                   in Inr \<bar>raw_id'\<bar>)))"

text \<open>
  The reference definition, following the words of the specification: the digest of the
  concatenation of each part's UTF-8 bytes, each followed by one zero byte; the first eight
  digest bytes as one big-endian 64-bit word; that word read as a signed integer; its
  absolute value.
\<close>

fun encode_parts :: "nat list list \<Rightarrow> exn + byte list list" where
  "encode_parts [] = Inr []"
| "encode_parts (p # ps) =
     (case utf8_encode p of
        Inl e \<Rightarrow> Inl e
      | Inr b \<Rightarrow> (case encode_parts ps of Inl e \<Rightarrow> Inl e | Inr bs \<Rightarrow> Inr (b # bs)))"

definition generate_id_reference :: "(byte list \<Rightarrow> byte list) \<Rightarrow> nat list list \<Rightarrow> exn + int" where
  "generate_id_reference sha256 parts =
     (case encode_parts parts of
        Inl e \<Rightarrow> Inl e
      | Inr bs \<Rightarrow>
          Inr \<bar>sint (word_rcat (take 8 (sha256 (concat (map (\<lambda>b. b @ [0]) bs)))) :: 64 word)\<bar>)"

section \<open>lxml elements and the library functions the mapper calls\<close>

text \<open>
  An element as the mapper reads it: its tag, its attributes, its text and its child
  elements. An XPath query returns a list of items, each an element or a string (an
  attribute value or a text node).
\<close>

datatype xml =
  Element (elem_tag: string) (elem_attrib: "(string \<times> string) list")
    (elem_text: "string option") (elem_children: "xml list")

datatype xitem = XElem xml | XStr string

record datetime =
  dt_year :: int
  dt_month :: int
  dt_day :: int
  dt_hour :: int
  dt_minute :: int
  dt_second :: int
  dt_microsecond :: int

text \<open>
  The functions of Python and of its libraries that the mapper calls are parameters,
  collected in one record:
  \<^item> \<open>lib_int\<close>, \<open>lib_float\<close>: the built-ins \<open>int()\<close> and \<open>float()\<close> on a string, \<open>None\<close>
    for \<open>ValueError\<close>; a float is its 64 bits;
  \<^item> \<open>lib_strptime\<close>: \<open>datetime.strptime(s, fmt)\<close>, \<open>None\<close> for \<open>ValueError\<close>;
  \<^item> \<open>lib_xpath\<close>: \<open>node.xpath(expr)\<close> of lxml, which raises for an expression it cannot
    evaluate;
  \<^item> \<open>lib_str\<close>: \<open>str()\<close> of an element;
  \<^item> \<open>lib_sha256\<close>: the digest of \<open>hashlib.sha256\<close>.
\<close>

record library =
  lib_int :: "string \<Rightarrow> int option"
  lib_float :: "string \<Rightarrow> 64 word option"
  lib_strptime :: "string \<Rightarrow> string \<Rightarrow> datetime option"
  lib_xpath :: "xml \<Rightarrow> string \<Rightarrow> exn + xitem list"
  lib_str :: "xml \<Rightarrow> string"
  lib_sha256 :: "byte list \<Rightarrow> byte list"

text \<open>Sequencing of calls that can raise: the first exception leaves the function.\<close>

definition then_do :: "exn + 'a \<Rightarrow> ('a \<Rightarrow> exn + 'b) \<Rightarrow> exn + 'b" where
  "then_do r f = (case r of Inl e \<Rightarrow> Inl e | Inr x \<Rightarrow> f x)"

text \<open>\<open>node.get(name, default)\<close> and \<open>node.find(tag)\<close> for a plain tag.\<close>

definition elem_get :: "xml \<Rightarrow> string \<Rightarrow> string \<Rightarrow> string" where
  "elem_get node name dflt =
     (case map_of (elem_attrib node) name of None \<Rightarrow> dflt | Some v \<Rightarrow> v)"

definition elem_find :: "xml \<Rightarrow> string \<Rightarrow> xml option" where
  "elem_find node t = find (\<lambda>c. elem_tag c = t) (elem_children node)"

section \<open>ccda/hl7\_time.py\<close>

definition rstrip_char :: "char \<Rightarrow> string \<Rightarrow> string" where
  "rstrip_char c s = rev (dropWhile (\<lambda>x. x = c) (rev s))"

text \<open>\<open>s.rfind(c)\<close> for a single character: the last index of \<open>c\<close>, or \<open>-1\<close>.\<close>

definition rfind :: "string \<Rightarrow> char \<Rightarrow> int" where
  "rfind s c =
     (if c \<in> set s then int (length s) - 1 - int (length (takeWhile (\<lambda>x. x \<noteq> c) (rev s)))
      else - 1)"

fun strip_offset :: "string \<Rightarrow> char list \<Rightarrow> string" where
  "strip_offset s [] = s"
| "strip_offset s (sep # seps) =
     (if sep \<in> set (drop 1 s) then
        (let idx = rfind s sep
         in if idx > 0 then take (nat idx) s else strip_offset s seps)
      else strip_offset s seps)"

definition hl7_formats :: "(string \<times> nat) list" where
  "hl7_formats =
     [(''%Y%m%d%H%M%S'', 14), (''%Y%m%d%H%M'', 12), (''%Y%m%d%H'', 10),
      (''%Y%m%d'', 8), (''%Y%m'', 6), (''%Y'', 4)]"

fun try_formats :: "library \<Rightarrow> string \<Rightarrow> (string \<times> nat) list \<Rightarrow> datetime option" where
  "try_formats X s [] = None"
| "try_formats X s ((fmt, n) # formats) =
     (if length s \<ge> n then
        (case lib_strptime X (take n s) fmt of
           Some d \<Rightarrow> Some d
         | None \<Rightarrow> try_formats X s formats)
      else try_formats X s formats)"

definition parse_hl7_time :: "library \<Rightarrow> string \<Rightarrow> datetime option" where
  "parse_hl7_time X s =
     (if s = '''' then None
      else try_formats X (strip_offset (rstrip_char CHR ''Z'' s) [CHR ''+'', CHR ''-'']) hl7_formats)"

section \<open>mapper/extractor.py\<close>

definition extract_time :: "library \<Rightarrow> xml option \<Rightarrow> string \<Rightarrow> exn + datetime option" where
  "extract_time X node xpath =
     (case node of
        None \<Rightarrow> Inr None
      | Some n \<Rightarrow>
          then_do (lib_xpath X n xpath) (\<lambda>result.
            case result of
              [] \<Rightarrow> Inr None
            | XElem e # _ \<Rightarrow> Inr (parse_hl7_time X (elem_get e ''value'' ''''))
            | XStr v # _ \<Rightarrow> Inr (parse_hl7_time X v)))"

definition should_include_entry :: "xml option \<Rightarrow> bool" where
  "should_include_entry node =
     (case node of
        None \<Rightarrow> False
      | Some n \<Rightarrow>
          (let mood_code = elem_get n ''moodCode'' ''''
           in if mood_code \<noteq> '''' \<and> mood_code \<noteq> ''EVN'' then False
              else (case elem_find n ''statusCode'' of
                      Some status_node \<Rightarrow>
                        (let status = elem_get status_node ''code'' ''''
                         in if status \<noteq> '''' \<and> status \<notin> set [''completed'', ''active'']
                            then False else True)
                    | None \<Rightarrow> True)))"

section \<open>mapper/rules.py: the rule model\<close>

text \<open>
  The dataclasses of the rule model. Field names carry a prefix where two classes share a
  name or where the name is reserved in Isabelle.
\<close>

record Condition =
  cond_type :: string
  cond_field :: string
  cond_value :: string

record Extraction =
  extr_field :: string
  extr_xpath :: string
  extr_type :: string

record SourceSpec =
  src_section :: string
  src_section_oid :: string
  src_section_oid_entries_required :: string
  src_entry_xpath :: string
  src_entry_type :: string
  src_extraction :: "Extraction list"
  src_conditions :: "Condition list"

record TargetSpec =
  tgt_table :: string
  tgt_type_concept_id :: int

record FieldMapping =
  fm_target :: string
  fm_xpath :: string
  fm_fallback_xpath :: string
  fm_vocab_xpath :: string
  fm_transform :: string
  fm_optional :: bool
  fm_source :: string
  fm_vocab_field :: string

record IDGenSpec =
  base_fields :: "string list"
  generator :: string

record MappingRule =
  rule_name :: string
  rule_source :: SourceSpec
  rule_target :: TargetSpec
  rule_fields :: "FieldMapping list"
  rule_id_gen :: IDGenSpec

section \<open>mapper/vocabulary.py: the vocabulary mapper\<close>

record VocabularyMapper =
  vocab_loader :: "VocabLoader option"

definition CONCEPT_NO_MAPPING :: int where
  "CONCEPT_NO_MAPPING = 0"

definition map_unit_code :: "VocabularyMapper \<Rightarrow> string \<Rightarrow> int" where
  "map_unit_code vocab unit_code =
     (case vocab_loader vocab of
        None \<Rightarrow> CONCEPT_NO_MAPPING
      | Some L \<Rightarrow>
          if unit_code = '''' then CONCEPT_NO_MAPPING
          else get_standard_concept_id L ''UCUM'' unit_code)"

definition map_route_code :: "VocabularyMapper \<Rightarrow> string \<Rightarrow> string \<Rightarrow> int" where
  "map_route_code vocab code code_system =
     (case vocab_loader vocab of
        None \<Rightarrow> CONCEPT_NO_MAPPING
      | Some L \<Rightarrow>
          if code = '''' then CONCEPT_NO_MAPPING
          else (let vocab_id = oid_to_vocabulary_id code_system;
                    vocab_id' = (if vocab_id = '''' then ''SNOMED'' else vocab_id)
                in get_standard_concept_id L vocab_id' code))"

definition map_observation_value_code :: "VocabularyMapper \<Rightarrow> string \<Rightarrow> string \<Rightarrow> int" where
  "map_observation_value_code vocab code code_system =
     (case vocab_loader vocab of
        None \<Rightarrow> CONCEPT_NO_MAPPING
      | Some L \<Rightarrow>
          if code = '''' then CONCEPT_NO_MAPPING
          else (let vocab_id = oid_to_vocabulary_id code_system;
                    vocab_id' = (if vocab_id = '''' then ''SNOMED'' else vocab_id)
                in get_standard_concept_id L vocab_id' code))"

definition mapper_get_concept_domain :: "VocabularyMapper \<Rightarrow> int \<Rightarrow> string" where
  "mapper_get_concept_domain vocab cid =
     (case vocab_loader vocab of None \<Rightarrow> '''' | Some L \<Rightarrow> get_concept_domain L cid)"

section \<open>mapper/transforms.py\<close>

text \<open>
  The values a record holds: integers, strings, floats (their 64 bits) and datetimes.
  A transform returns \<open>None\<close> where the Python function returns \<open>None\<close>.
\<close>

datatype pyval = VInt int | VStr string | VFloat "64 word" | VDatetime datetime

definition transform_none :: "string \<Rightarrow> pyval option" where
  "transform_none v = Some (VStr v)"

definition transform_string :: "string \<Rightarrow> pyval option" where
  "transform_string v = Some (VStr v)"

definition transform_int :: "library \<Rightarrow> string \<Rightarrow> pyval option" where
  "transform_int X v = map_option VInt (lib_int X v)"

definition transform_float :: "library \<Rightarrow> string \<Rightarrow> pyval option" where
  "transform_float X v = map_option VFloat (lib_float X v)"

definition transform_date :: "datetime option \<Rightarrow> pyval option" where
  "transform_date v =
     (case v of
        None \<Rightarrow> None
      | Some d \<Rightarrow> Some (VDatetime (d\<lparr>dt_hour := 0, dt_minute := 0, dt_second := 0, dt_microsecond := 0\<rparr>)))"

definition transform_time_ptr :: "datetime option \<Rightarrow> pyval option" where
  "transform_time_ptr v = map_option VDatetime v"

definition format_source_value :: "string \<Rightarrow> string \<Rightarrow> string" where
  "format_source_value code display_name =
     (if code \<noteq> '''' \<and> display_name \<noteq> '''' then code @ '': '' @ display_name
      else if display_name \<noteq> '''' then display_name
      else if code \<noteq> '''' then code
      else '''')"

text \<open>
  \<open>get_transform\<close> for the names that reach the last branch of \<open>_extract_field_value\<close>:
  \<open>string\<close> has its own entry in the registry, every other name there is \<open>none\<close> or is
  absent from the registry, and both give \<open>transform_none\<close>.
\<close>

definition get_transform :: "string \<Rightarrow> string \<Rightarrow> pyval option" where
  "get_transform name = (if name = ''string'' then transform_string else transform_none)"

section \<open>mapper/rule\_engine.py: the rule execution engine\<close>

text \<open>
  An output record is a Python dict: an association list in insertion order, where
  assigning to a key that is present replaces its value in place
  (\<^const>\<open>AList.update\<close>) and \<open>record.get(key)\<close> is \<^const>\<open>map_of\<close>.
\<close>

type_synonym omop_record = "(string \<times> pyval) list"

text \<open>
  \<open>str(result[0]) if not isinstance(result[0], etree._Element) else result[0].text or ""\<close>
  and the plain \<open>str(result[0])\<close>.
\<close>

definition item_text :: "xitem \<Rightarrow> string" where
  "item_text r =
     (case r of
        XStr s \<Rightarrow> s
      | XElem e \<Rightarrow> (case elem_text e of None \<Rightarrow> '''' | Some t \<Rightarrow> t))"

definition item_str :: "library \<Rightarrow> xitem \<Rightarrow> string" where
  "item_str X r = (case r of XStr s \<Rightarrow> s | XElem e \<Rightarrow> lib_str X e)"

definition first_text :: "xitem list \<Rightarrow> string" where
  "first_text result = (case result of [] \<Rightarrow> '''' | r # _ \<Rightarrow> item_text r)"

definition extract_xpath_value :: "library \<Rightarrow> xml \<Rightarrow> string \<Rightarrow> string \<Rightarrow> exn + string" where
  "extract_xpath_value X entry xpath fallback_xpath =
     (if xpath = '''' then
        (if fallback_xpath \<noteq> '''' then
           then_do (lib_xpath X entry fallback_xpath) (\<lambda>result. Inr (first_text result))
         else Inr '''')
      else
        then_do (lib_xpath X entry xpath) (\<lambda>result.
          case result of
            r # _ \<Rightarrow> Inr (item_text r)
          | [] \<Rightarrow>
              if fallback_xpath \<noteq> '''' then
                then_do (lib_xpath X entry fallback_xpath) (\<lambda>result. Inr (first_text result))
              else Inr ''''))"

text \<open>
  \<open>_extract_concept_ids\<close>: the loop over the rule's fields. The code system of a vocab
  field is read with its \<open>vocab_xpath\<close>; the lookup needs a resolved vocabulary id and a
  loaded vocabulary.
\<close>

definition vocab_code_system :: "library \<Rightarrow> xml \<Rightarrow> FieldMapping \<Rightarrow> exn + string" where
  "vocab_code_system X entry fm =
     (if fm_vocab_xpath fm \<noteq> '''' then
        then_do (lib_xpath X entry (fm_vocab_xpath fm)) (\<lambda>result. Inr (first_text result))
      else Inr '''')"

definition lookup_standard_ids :: "VocabularyMapper \<Rightarrow> string \<Rightarrow> string \<Rightarrow> int list" where
  "lookup_standard_ids vocab code_system code =
     (let vocab_id = oid_to_vocabulary_id code_system
      in if vocab_id \<noteq> '''' then
           (case vocab_loader vocab of
              Some L \<Rightarrow> get_standard_concept_ids L vocab_id code
            | None \<Rightarrow> [])
         else [])"

fun extract_concept_ids_loop ::
  "library \<Rightarrow> VocabularyMapper \<Rightarrow> xml \<Rightarrow> bool \<Rightarrow> FieldMapping list \<Rightarrow> exn + int list" where
  "extract_concept_ids_loop X vocab entry entries_required [] = Inr []"
| "extract_concept_ids_loop X vocab entry entries_required (fm # fms) =
     (if fm_transform fm = ''vocab'' then
        then_do (extract_xpath_value X entry (fm_xpath fm) (fm_fallback_xpath fm)) (\<lambda>code.
          if code = '''' then extract_concept_ids_loop X vocab entry entries_required fms
          else
            then_do (vocab_code_system X entry fm) (\<lambda>code_system.
              let ids = lookup_standard_ids vocab code_system code
              in if ids \<noteq> [] then Inr ids
                 else if \<not> entries_required then Inr [0]
                 else extract_concept_ids_loop X vocab entry entries_required fms))
      else extract_concept_ids_loop X vocab entry entries_required fms)"

definition extract_concept_ids ::
  "library \<Rightarrow> VocabularyMapper \<Rightarrow> MappingRule \<Rightarrow> xml \<Rightarrow> bool \<Rightarrow> exn + int list" where
  "extract_concept_ids X vocab rule entry entries_required =
     extract_concept_ids_loop X vocab entry entries_required (rule_fields rule)"

fun check_conditions :: "VocabularyMapper \<Rightarrow> Condition list \<Rightarrow> xml \<Rightarrow> int \<Rightarrow> bool" where
  "check_conditions vocab [] entry cid = True"
| "check_conditions vocab (cond # conds) entry cid =
     (if cond_type cond = ''domain_equals'' then
        (if mapper_get_concept_domain vocab cid \<noteq> cond_value cond then False
         else check_conditions vocab conds entry cid)
      else if cond_type cond = ''domain_not_equals'' then
        (if mapper_get_concept_domain vocab cid = cond_value cond then False
         else check_conditions vocab conds entry cid)
      else check_conditions vocab conds entry cid)"

text \<open>
  String helpers of \<open>_generate_id\<close>: \<open>str.split\<close> on one character, \<open>str.join\<close>,
  \<open>str.lower\<close> and \<open>str()\<close> of an integer. A character of a \<^typ>\<open>string\<close> stands for
  the code point of the same number, so \<open>lower\<close> is given for the code points below 256.
\<close>

fun split_char :: "char \<Rightarrow> string \<Rightarrow> string list" where
  "split_char c [] = [[]]"
| "split_char c (x # xs) =
     (if x = c then [] # split_char c xs
      else (case split_char c xs of
              [] \<Rightarrow> [[x]]
            | w # ws \<Rightarrow> (x # w) # ws))"

fun join :: "string \<Rightarrow> string list \<Rightarrow> string" where
  "join sep [] = []"
| "join sep [p] = p"
| "join sep (p # q # ps) = p @ sep @ join sep (q # ps)"

definition lower_char :: "char \<Rightarrow> char" where
  "lower_char c =
     (let n = (of_char c :: nat)
      in if (65 \<le> n \<and> n \<le> 90) \<or> (192 \<le> n \<and> n \<le> 222 \<and> n \<noteq> 215)
         then char_of (n + 32) else c)"

definition lower :: "string \<Rightarrow> string" where
  "lower s = map lower_char s"

fun str_nat :: "nat \<Rightarrow> string" where
  "str_nat n =
     (if n < 10 then [char_of (48 + n)]
      else str_nat (n div 10) @ [char_of (48 + n mod 10)])"

definition str_int :: "int \<Rightarrow> string" where
  "str_int i = (if i < 0 then CHR ''-'' # str_nat (nat (- i)) else str_nat (nat i))"

definition code_points :: "string \<Rightarrow> nat list" where
  "code_points s = map of_char s"

definition id_field_xpath :: "string \<Rightarrow> string" where
  "id_field_xpath field_path =
     (if CHR ''.'' \<in> set field_path then
        (let parts = split_char CHR ''.'' field_path
         in lower (join ''/'' (butlast parts)) @ ''/@'' @ lower (last parts))
      else lower field_path @ ''/@value'')"

fun id_values :: "library \<Rightarrow> xml \<Rightarrow> string list \<Rightarrow> string list \<Rightarrow> exn + string list" where
  "id_values X entry vals [] = Inr vals"
| "id_values X entry vals (field_path # field_paths) =
     then_do (lib_xpath X entry (id_field_xpath field_path)) (\<lambda>result.
       case result of
         [] \<Rightarrow> id_values X entry vals field_paths
       | r # _ \<Rightarrow> id_values X entry (vals @ [item_str X r]) field_paths)"

text \<open>\<open>RuleEngine._generate_id\<close>; the name \<open>generate_id\<close> is the function of \<open>omop/ids.py\<close>.\<close>

definition engine_generate_id :: "library \<Rightarrow> MappingRule \<Rightarrow> xml \<Rightarrow> int \<Rightarrow> exn + int" where
  "engine_generate_id X rule entry person_id =
     then_do (id_values X entry [str_int person_id] (base_fields (rule_id_gen rule))) (\<lambda>vals.
       let gen = (if generator (rule_id_gen rule) \<noteq> '''' then generator (rule_id_gen rule)
                  else tgt_table (rule_target rule))
       in generate_id (lib_sha256 X) (map code_points (gen # vals)))"

text \<open>
  \<open>_extract_field_value\<close>: \<open>Inl\<close> for an exception, \<open>Inr None\<close> for the value \<open>None\<close>.
  The raw value is extracted before the transform is chosen, also where the transform
  does not use it.
\<close>

definition field_code_system :: "library \<Rightarrow> xml \<Rightarrow> string \<Rightarrow> exn + string" where
  "field_code_system X entry path =
     (if path \<noteq> '''' then
        then_do (lib_xpath X entry path) (\<lambda>result.
          Inr (case result of [] \<Rightarrow> '''' | r # _ \<Rightarrow> item_str X r))
      else Inr '''')"

definition extract_field_value ::
  "library \<Rightarrow> VocabularyMapper \<Rightarrow> xml \<Rightarrow> FieldMapping \<Rightarrow> int \<Rightarrow> (string \<times> int) list
     \<Rightarrow> exn + pyval option" where
  "extract_field_value X vocab entry fm cid visit_map =
     (if fm_transform fm = ''vocab'' then Inr (Some (VInt cid))
      else
        then_do (extract_xpath_value X entry (fm_xpath fm) (fm_fallback_xpath fm)) (\<lambda>raw.
          if fm_transform fm = ''date'' then
            then_do (extract_time X (Some entry) (fm_xpath fm)) (\<lambda>dt. Inr (transform_date dt))
          else if fm_transform fm = ''time_ptr'' then
            then_do (extract_time X (Some entry) (fm_xpath fm)) (\<lambda>dt. Inr (transform_time_ptr dt))
          else if fm_transform fm = ''float'' then Inr (transform_float X raw)
          else if fm_transform fm = ''int'' then Inr (transform_int X raw)
          else if fm_transform fm = ''unit'' then
            Inr (if raw \<noteq> '''' then Some (VInt (map_unit_code vocab raw)) else None)
          else if fm_transform fm = ''route'' then
            then_do (field_code_system X entry (fm_vocab_xpath fm)) (\<lambda>code_system.
              Inr (if raw \<noteq> '''' then Some (VInt (map_route_code vocab raw code_system)) else None))
          else if fm_transform fm = ''value_vocab'' then
            then_do (field_code_system X entry (fm_vocab_xpath fm)) (\<lambda>code_system.
              Inr (if raw \<noteq> '''' then Some (VInt (map_observation_value_code vocab raw code_system))
                   else None))
          else if fm_transform fm = ''format_source'' then
            then_do (field_code_system X entry (fm_fallback_xpath fm)) (\<lambda>display.
              Inr (Some (VStr (format_source_value raw display))))
          else Inr (get_transform (fm_transform fm) raw)))"

text \<open>
  \<open>_create_record\<close>: the dict literal, the loop over the fields with its
  \<open>try\<close>/\<open>except Exception\<close>, and the provenance tag. \<open>None\<close> is the \<open>return None\<close> of a
  required field without a value.
\<close>

fun create_record_fields ::
  "library \<Rightarrow> VocabularyMapper \<Rightarrow> xml \<Rightarrow> int \<Rightarrow> (string \<times> int) list \<Rightarrow> bool
     \<Rightarrow> omop_record \<Rightarrow> FieldMapping list \<Rightarrow> omop_record option" where
  "create_record_fields X vocab entry cid visit_map entries_required record [] = Some record"
| "create_record_fields X vocab entry cid visit_map entries_required record (fm # fms) =
     (let is_optional = (fm_optional fm \<or> \<not> entries_required)
      in case extract_field_value X vocab entry fm cid visit_map of
           Inr (Some v) \<Rightarrow>
             create_record_fields X vocab entry cid visit_map entries_required
               (AList.update (fm_target fm) v record) fms
         | Inr None \<Rightarrow>
             if \<not> is_optional then None
             else create_record_fields X vocab entry cid visit_map entries_required record fms
         | Inl e \<Rightarrow>
             if \<not> is_optional then None
             else create_record_fields X vocab entry cid visit_map entries_required record fms)"

definition id_field :: "MappingRule \<Rightarrow> string" where
  "id_field rule = tgt_table (rule_target rule) @ ''_id''"

definition type_field :: "MappingRule \<Rightarrow> string" where
  "type_field rule = hd (split_char CHR ''_'' (tgt_table (rule_target rule))) @ ''_type_concept_id''"

definition initial_record :: "MappingRule \<Rightarrow> int \<Rightarrow> int \<Rightarrow> omop_record" where
  "initial_record rule person_id record_id =
     AList.update (type_field rule) (VInt (tgt_type_concept_id (rule_target rule)))
       (AList.update ''person_id'' (VInt person_id)
         (AList.update (id_field rule) (VInt record_id) []))"

definition create_record ::
  "library \<Rightarrow> VocabularyMapper \<Rightarrow> MappingRule \<Rightarrow> xml \<Rightarrow> int \<Rightarrow> int \<Rightarrow> int
     \<Rightarrow> (string \<times> int) list \<Rightarrow> bool \<Rightarrow> omop_record option" where
  "create_record X vocab rule entry person_id record_id cid visit_map entries_required =
     (case create_record_fields X vocab entry cid visit_map entries_required
             (initial_record rule person_id record_id) (rule_fields rule) of
        None \<Rightarrow> None
      | Some record \<Rightarrow> Some (AList.update ''mapping_rule'' (VStr (''RuleMapper:'' @ rule_name rule)) record))"

text \<open>
  The loop of \<open>map_entry\<close> over \<open>enumerate(cids)\<close>, from position \<open>i\<close> on;
  \<open>if record:\<close> keeps a record that is neither \<open>None\<close> nor an empty dict.
\<close>

fun fan_out ::
  "library \<Rightarrow> VocabularyMapper \<Rightarrow> MappingRule \<Rightarrow> xml \<Rightarrow> int \<Rightarrow> int \<Rightarrow> (string \<times> int) list
     \<Rightarrow> bool \<Rightarrow> nat \<Rightarrow> int list \<Rightarrow> omop_record list" where
  "fan_out X vocab rule entry person_id base_id visit_map entries_required i [] = []"
| "fan_out X vocab rule entry person_id base_id visit_map entries_required i (cid # cids) =
     (case create_record X vocab rule entry person_id (base_id + int i) cid visit_map
             entries_required of
        None \<Rightarrow>
          fan_out X vocab rule entry person_id base_id visit_map entries_required (Suc i) cids
      | Some record \<Rightarrow>
          if record \<noteq> [] then
            record # fan_out X vocab rule entry person_id base_id visit_map entries_required (Suc i)
                       cids
          else fan_out X vocab rule entry person_id base_id visit_map entries_required (Suc i)
                 cids)"

definition map_entry ::
  "library \<Rightarrow> VocabularyMapper \<Rightarrow> MappingRule \<Rightarrow> xml option \<Rightarrow> int \<Rightarrow> (string \<times> int) list
     \<Rightarrow> bool \<Rightarrow> exn + omop_record list" where
  "map_entry X vocab rule entry person_id visit_map entries_required =
     (if \<not> should_include_entry entry then Inr []
      else case entry of
        None \<Rightarrow> Inl AttributeError
      | Some e \<Rightarrow>
          then_do (extract_concept_ids X vocab rule e entries_required) (\<lambda>found.
            if found = [] \<and> entries_required then Inr []
            else
              (let cids = (if found = [] then [0] else found)
               in if src_conditions (rule_source rule) \<noteq> [] \<and>
                     \<not> check_conditions vocab (src_conditions (rule_source rule)) e (hd cids)
                  then Inr []
                  else
                    then_do (engine_generate_id X rule e person_id) (\<lambda>base_id.
                      Inr (fan_out X vocab rule e person_id base_id visit_map entries_required 0
                             cids)))))"

fun map_entries ::
  "library \<Rightarrow> VocabularyMapper \<Rightarrow> MappingRule \<Rightarrow> xml option list \<Rightarrow> int \<Rightarrow> (string \<times> int) list
     \<Rightarrow> bool \<Rightarrow> exn + omop_record list" where
  "map_entries X vocab rule [] person_id visit_map entries_required = Inr []"
| "map_entries X vocab rule (entry # entries) person_id visit_map entries_required =
     then_do (map_entry X vocab rule entry person_id visit_map entries_required) (\<lambda>mapped.
       then_do (map_entries X vocab rule entries person_id visit_map entries_required) (\<lambda>rest.
         Inr (mapped @ rest)))"

section \<open>Auxiliary notions of the statements\<close>

text \<open>A field extraction without a value: an exception or the value \<open>None\<close>.\<close>

definition no_value :: "exn + pyval option \<Rightarrow> bool" where
  "no_value r \<longleftrightarrow> (case r of Inl e \<Rightarrow> True | Inr None \<Rightarrow> True | Inr (Some v) \<Rightarrow> False)"


section \<open>mapper/rule\_loader.py: the YAML rule loader\<close>

text \<open>
  A document as \<open>yaml.safe_load\<close> returns it: \<open>None\<close>, a bool, an int, a float (its 64
  bits), a str, a list or a dict. A dict is the list of its items in insertion order,
  each key once. Timestamps, binary values and sets are left out.
\<close>

datatype yaml =
    YNull
  | YBool bool
  | YInt int
  | YFloat "64 word"
  | YStr string
  | YSeq "yaml list"
  | YMap "(yaml \<times> yaml) list"



















text \<open>
  What a path names: a regular file, with what \<open>open\<close> and \<open>yaml.safe_load\<close> give for it
  (an exception or the document), a directory with its entries in the order of
  \<open>iterdir\<close>, or nothing that can be opened.
\<close>

datatype node =
    RegularFile "exn + yaml"
  | Directory "(string \<times> node) list"
  | NoFile








section \<open>Concrete inputs used in evaluations\<close>

text \<open>
  A decimal reader for plain digit strings with an optional minus sign. It agrees with
  \<open>int()\<close> on such strings and stands in for it where a statement is evaluated on
  concrete rows.
\<close>

fun dec_digits :: "nat \<Rightarrow> string \<Rightarrow> nat option" where
  "dec_digits acc [] = Some acc"
| "dec_digits acc (c # cs) =
     (let n = (of_char c :: nat)
      in if 48 \<le> n \<and> n \<le> 57 then dec_digits (acc * 10 + (n - 48)) cs else None)"

definition dec_int :: "string \<Rightarrow> int option" where
  "dec_int s =
     (case s of
        [] \<Rightarrow> None
      | c # cs \<Rightarrow>
          if c = CHR ''-'' then (if cs = [] then None else map_option (\<lambda>n. - int n) (dec_digits 0 cs))
          else map_option int (dec_digits 0 s))"

text \<open>
  An index holding one non-standard ICD10CM concept, and a relationship file with two live
  edges for it and, between them, an invalidated one.
\<close>

definition example_concept :: Concept where
  "example_concept =
     \<lparr>concept_id = 35206882, concept_name = ''Type 2 diabetes mellitus'',
      domain_id = ''Condition'', vocabulary_id = ''ICD10CM'', concept_class_id = ''4-char'',
      standard_concept = '''', concept_code = ''E11.9''\<rparr>"

definition example_index :: VocabLoader where
  "example_index =
     \<lparr>concept_index = [''ICD10CM|E11.9'' \<mapsto> example_concept],
      concept_by_id = [35206882 \<mapsto> example_concept],
      maps_to = Map.empty\<rparr>"

definition example_relationships :: "string list list" where
  "example_relationships =
     [[''concept_id_1'', ''concept_id_2'', ''relationship_id'', ''valid_start_date'',
       ''valid_end_date'', ''invalid_reason''],
      [''35206882'', ''201826'', ''Maps to'', ''19700101'', ''20991231'', ''''],
      [''35206882'', ''777'', ''Maps to'', ''19700101'', ''20200101'', ''D''],
      [''35206882'', ''4193704'', ''Maps to'', ''19700101'', ''20991231'', '''']]"

definition example_loaded :: VocabLoader where
  "example_loaded = fst (relationship_rows dec_int example_index 0 (tl example_relationships))"

text \<open>
  A stand-in digest for evaluations: it pads or cuts the message to 32 bytes. It is not
  SHA-256; it has only the digest length of it.
\<close>

definition example_digest :: "byte list \<Rightarrow> byte list" where
  "example_digest m = take 32 (m @ replicate 32 0xFF)"

text \<open>
  A stand-in for the XPath engine in evaluations. It evaluates the two shapes of path that
  the examples use, \<open>tag\<close> or \<open>@attr\<close> alone and \<open>tag/@attr\<close>, relative to the node, and
  raises for every other expression, as lxml does for an expression it cannot parse.
\<close>

definition example_step :: "xml \<Rightarrow> string \<Rightarrow> xitem list" where
  "example_step node s =
     (if hd s = CHR ''@'' then
        (case map_of (elem_attrib node) (tl s) of None \<Rightarrow> [] | Some v \<Rightarrow> [XStr v])
      else map XElem (filter (\<lambda>c. elem_tag c = s) (elem_children node)))"

definition example_xpath :: "xml \<Rightarrow> string \<Rightarrow> exn + xitem list" where
  "example_xpath node p =
     (case split_char CHR ''/'' p of
        [s] \<Rightarrow> if s = [] \<or> s = ''@'' then Inl XPathEvalError else Inr (example_step node s)
      | [t, s] \<Rightarrow>
          if t = [] \<or> hd t = CHR ''@'' \<or> s = [] \<or> s = ''@'' then Inl XPathEvalError
          else Inr (concat (map (\<lambda>c. example_step c s)
                              (filter (\<lambda>c. elem_tag c = t) (elem_children node))))
      | _ \<Rightarrow> Inl XPathEvalError)"

definition example_library :: library where
  "example_library =
     \<lparr>lib_int = dec_int,
      lib_float = (\<lambda>s. None),
      lib_strptime = (\<lambda>s fmt. None),
      lib_xpath = example_xpath,
      lib_str = (\<lambda>e. ''<Element '' @ elem_tag e @ ''>''),
      lib_sha256 = example_digest\<rparr>"

text \<open>
  A vocabulary where the ICD10CM code E11.9 maps to two standard concepts, the first in
  the domain Observation and the second in the domain Condition.
\<close>

definition example_observation_concept :: Concept where
  "example_observation_concept =
     \<lparr>concept_id = 4193704, concept_name = ''Type 2 diabetes mellitus without complication'',
      domain_id = ''Observation'', vocabulary_id = ''SNOMED'', concept_class_id = ''Clinical Finding'',
      standard_concept = ''S'', concept_code = ''313436004''\<rparr>"

definition example_condition_concept :: Concept where
  "example_condition_concept =
     \<lparr>concept_id = 201826, concept_name = ''Type 2 diabetes mellitus'',
      domain_id = ''Condition'', vocabulary_id = ''SNOMED'', concept_class_id = ''Clinical Finding'',
      standard_concept = ''S'', concept_code = ''44054006''\<rparr>"

definition example_vocab :: VocabularyMapper where
  "example_vocab =
     \<lparr>vocab_loader = Some
        \<lparr>concept_index = [''ICD10CM|E11.9'' \<mapsto> example_concept],
         concept_by_id = [35206882 \<mapsto> example_concept, 4193704 \<mapsto> example_observation_concept,
                          201826 \<mapsto> example_condition_concept],
         maps_to = [35206882 \<mapsto> [4193704, 201826]]\<rparr>\<rparr>"

text \<open>A completed problem observation coded with E11.9, and two entries that are excluded.\<close>

definition example_entry :: xml where
  "example_entry =
     Element ''observation'' [(''classCode'', ''OBS''), (''moodCode'', ''EVN'')] None
       [Element ''statusCode'' [(''code'', ''completed'')] None [],
        Element ''code'' [(''code'', ''E11.9''), (''codeSystem'', ''2.16.840.1.113883.6.90''),
                          (''displayName'', ''Type 2 diabetes'')] None [],
        Element ''id'' [(''extension'', ''abc'')] None []]"

definition example_intent_entry :: xml where
  "example_intent_entry =
     Element ''act'' [(''moodCode'', ''INT'')] None
       [Element ''code'' [(''displayName'', ''Test'')] None []]"

definition example_cancelled_entry :: xml where
  "example_cancelled_entry =
     Element ''act'' [(''moodCode'', ''EVN'')] None
       [Element ''statusCode'' [(''code'', ''cancelled'')] None [],
        Element ''code'' [(''displayName'', ''Test'')] None []]"

text \<open>An entry whose code is in no vocabulary.\<close>

definition example_unmapped_entry :: xml where
  "example_unmapped_entry =
     Element ''observation'' [(''moodCode'', ''EVN'')] None
       [Element ''code'' [(''code'', ''local-17''), (''codeSystem'', ''1.2.3''),
                          (''displayName'', ''Local finding'')] None []]"

text \<open>
  A rule for the condition table with a vocab field and a source-value field; variants of
  it with a domain condition, with a field that targets \<open>person_id\<close>, and with a vocab
  path that is no XPath expression.
\<close>

definition example_rule :: MappingRule where
  "example_rule =
     \<lparr>rule_name = ''problem_condition'',
      rule_source =
        \<lparr>src_section = ''Problems'', src_section_oid = ''2.16.840.1.113883.10.20.22.2.5'',
         src_section_oid_entries_required = ''2.16.840.1.113883.10.20.22.2.5.1'',
         src_entry_xpath = ''entry/act/entryRelationship/observation'', src_entry_type = ''Observation'',
         src_extraction = [], src_conditions = []\<rparr>,
      rule_target = \<lparr>tgt_table = ''condition_occurrence'', tgt_type_concept_id = 32817\<rparr>,
      rule_fields =
        [\<lparr>fm_target = ''condition_concept_id'', fm_xpath = ''code/@code'', fm_fallback_xpath = '''',
          fm_vocab_xpath = ''code/@codeSystem'', fm_transform = ''vocab'', fm_optional = False,
          fm_source = '''', fm_vocab_field = ''''\<rparr>,
         \<lparr>fm_target = ''condition_source_value'', fm_xpath = ''code/@displayName'',
          fm_fallback_xpath = '''', fm_vocab_xpath = '''', fm_transform = ''string'',
          fm_optional = False, fm_source = '''', fm_vocab_field = ''''\<rparr>],
      rule_id_gen = \<lparr>base_fields = [''Code.Code''], generator = ''condition''\<rparr>\<rparr>"

definition example_condition_rule :: MappingRule where
  "example_condition_rule =
     example_rule\<lparr>rule_source := (rule_source example_rule)
       \<lparr>src_conditions := [\<lparr>cond_type = ''domain_equals'', cond_field = '''', cond_value = ''Condition''\<rparr>]\<rparr>\<rparr>"

definition example_person_id_rule :: MappingRule where
  "example_person_id_rule =
     example_rule\<lparr>rule_fields := rule_fields example_rule @
       [\<lparr>fm_target = ''person_id'', fm_xpath = ''id/@extension'', fm_fallback_xpath = '''',
         fm_vocab_xpath = '''', fm_transform = ''string'', fm_optional = True,
         fm_source = '''', fm_vocab_field = ''''\<rparr>]\<rparr>"


text \<open>
  A variant with a required unit field, which has no value on an entry without a
  \<open>value\<close> child.
\<close>

definition example_unit_rule :: MappingRule where
  "example_unit_rule =
     example_rule\<lparr>rule_fields := rule_fields example_rule @
       [\<lparr>fm_target = ''unit_concept_id'', fm_xpath = ''value/@unit'', fm_fallback_xpath = '''',
         fm_vocab_xpath = '''', fm_transform = ''unit'', fm_optional = False,
         fm_source = '''', fm_vocab_field = ''''\<rparr>]\<rparr>"





section \<open>Properties of the code-system resolver\<close>

lemma oid_mapping_distinct: "distinct (map fst oid_mapping)"
  by code_simp

lemma oid_mapping_values: "snd ` set oid_mapping \<subseteq> set canonical_vocabulary_ids"
  unfolding oid_mapping_def canonical_vocabulary_ids_def by simp

lemma oid_to_vocabulary_id_range:
  "oid_to_vocabulary_id x = '''' \<or> oid_to_vocabulary_id x \<in> set canonical_vocabulary_ids"
proof (cases "map_of oid_mapping x")
  case None
  then show ?thesis by (simp add: oid_to_vocabulary_id_def)
next
  case (Some v)
  then have "(x, v) \<in> set oid_mapping" by (rule map_of_SomeD)
  then have "v \<in> snd ` set oid_mapping" by force
  then have "v \<in> set canonical_vocabulary_ids" using oid_mapping_values by blast
  then show ?thesis using Some by (simp add: oid_to_vocabulary_id_def)
qed

lemma oid_to_vocabulary_id_canonical_all:
  "list_all (\<lambda>v. oid_to_vocabulary_id v = v) canonical_vocabulary_ids"
  by code_simp

lemma oid_to_vocabulary_id_canonical:
  "v \<in> set canonical_vocabulary_ids \<Longrightarrow> oid_to_vocabulary_id v = v"
  using oid_to_vocabulary_id_canonical_all by (simp add: list_all_iff)

lemma oid_to_vocabulary_id_empty: "oid_to_vocabulary_id '''' = ''''"
  by code_simp

lemma oid_to_vocabulary_id_entry:
  assumes "(k, v) \<in> set oid_mapping"
  shows "oid_to_vocabulary_id k = v"
proof -
  have "map_of oid_mapping k = Some v"
    using oid_mapping_distinct assms by (rule map_of_is_SomeI)
  then show ?thesis by (simp add: oid_to_vocabulary_id_def)
qed

lemma oid_to_vocabulary_id_outside:
  assumes "x \<notin> fst ` set oid_mapping"
  shows "oid_to_vocabulary_id x = ''''"
proof -
  have "map_of oid_mapping x = None"
    using assms by (simp add: map_of_eq_None_iff)
  then show ?thesis by (simp add: oid_to_vocabulary_id_def)
qed

lemma oid_to_vocabulary_id_idem:
  "oid_to_vocabulary_id (oid_to_vocabulary_id x) = oid_to_vocabulary_id x"
proof (cases "oid_to_vocabulary_id x = ''''")
  case True
  then show ?thesis by (simp add: oid_to_vocabulary_id_empty)
next
  case False
  then have "oid_to_vocabulary_id x \<in> set canonical_vocabulary_ids"
    using oid_to_vocabulary_id_range [of x] by simp
  then show ?thesis by (rule oid_to_vocabulary_id_canonical)
qed

lemma oid_mapping_keys:
  "map fst oid_mapping =
     [''2.16.840.1.113883.6.96'', ''2.16.840.1.113883.6.88'', ''2.16.840.1.113883.6.1'',
      ''2.16.840.1.113883.6.90'', ''2.16.840.1.113883.6.103'', ''2.16.840.1.113883.6.12'',
      ''2.16.840.1.113883.6.14'', ''2.16.840.1.113883.6.13'', ''2.16.840.1.113883.12.292'',
      ''2.16.840.1.113883.6.59'', ''2.16.840.1.113883.6.69'', ''2.16.840.1.113883.4.9'',
      ''2.16.840.1.113883.3.26.1.5'', ''2.16.840.1.113883.3.26.1.1'',
      ''2.16.840.1.113883.5.4'', ''2.16.840.1.113883.5.112'', ''SNOMED'', ''SNOMED CT'',
      ''SNOMEDCT'', ''RxNorm'', ''LOINC'', ''ICD10CM'', ''ICD-10-CM'', ''ICD10'', ''ICD9CM'',
      ''ICD-9-CM'', ''ICD9'', ''CPT4'', ''CPT'', ''CPT-4'', ''HCPCS'', ''CVX'', ''NDC'',
      ''UNII'', ''NDFRT'', ''NDF-RT'', ''NCI'', ''NCIt'', ''ActCode'', ''ASSERTION'',
      ''RouteOfAdministration'']"
  by (simp add: oid_mapping_def)

lemma oid_to_vocabulary_id_pairs:
  "list_all (\<lambda>(k, v). oid_to_vocabulary_id k = v)
     [(''2.16.840.1.113883.6.96'', ''SNOMED''), (''2.16.840.1.113883.6.88'', ''RxNorm''),
      (''2.16.840.1.113883.6.1'', ''LOINC''), (''2.16.840.1.113883.6.90'', ''ICD10CM''),
      (''2.16.840.1.113883.6.103'', ''ICD9CM''), (''2.16.840.1.113883.6.12'', ''CPT4''),
      (''2.16.840.1.113883.6.14'', ''HCPCS''), (''2.16.840.1.113883.6.13'', ''HCPCS''),
      (''2.16.840.1.113883.12.292'', ''CVX''), (''2.16.840.1.113883.6.59'', ''CVX''),
      (''2.16.840.1.113883.6.69'', ''NDC''), (''2.16.840.1.113883.4.9'', ''UNII''),
      (''2.16.840.1.113883.3.26.1.5'', ''NDFRT''), (''2.16.840.1.113883.3.26.1.1'', ''NCI''),
      (''2.16.840.1.113883.5.4'', ''ActCode''),
      (''2.16.840.1.113883.5.112'', ''RouteOfAdministration''), (''SNOMED'', ''SNOMED''),
      (''SNOMED CT'', ''SNOMED''), (''SNOMEDCT'', ''SNOMED''), (''RxNorm'', ''RxNorm''),
      (''LOINC'', ''LOINC''), (''ICD10CM'', ''ICD10CM''), (''ICD-10-CM'', ''ICD10CM''),
      (''ICD10'', ''ICD10CM''), (''ICD9CM'', ''ICD9CM''), (''ICD-9-CM'', ''ICD9CM''),
      (''ICD9'', ''ICD9CM''), (''CPT4'', ''CPT4''), (''CPT'', ''CPT4''), (''CPT-4'', ''CPT4''),
      (''HCPCS'', ''HCPCS''), (''CVX'', ''CVX''), (''NDC'', ''NDC''), (''UNII'', ''UNII''),
      (''NDFRT'', ''NDFRT''), (''NDF-RT'', ''NDFRT''), (''NCI'', ''NCI''), (''NCIt'', ''NCI''),
      (''ActCode'', ''ActCode''), (''ASSERTION'', ''ActCode''),
      (''RouteOfAdministration'', ''RouteOfAdministration'')]"
  by code_simp

text \<open>
  C8. The resolver is total and reproduces the table: each of the 41 enumerated
  identifiers, the sixteen OIDs and the free-text names, resolves to the vocabulary id
  listed with it (so \<open>ICD-10-CM\<close>, \<open>ICD10\<close> and \<open>ICD10CM\<close> all resolve to \<open>ICD10CM\<close>),
  and every other identifier resolves to the empty string. Every result is empty or one of
  the fourteen canonical ids, a canonical id resolves to itself, and resolving twice is
  resolving once.
\<close>

theorem oid_to_vocabulary_id_table:
  "list_all (\<lambda>(k, v). oid_to_vocabulary_id k = v)
     [(''2.16.840.1.113883.6.96'', ''SNOMED''), (''2.16.840.1.113883.6.88'', ''RxNorm''),
      (''2.16.840.1.113883.6.1'', ''LOINC''), (''2.16.840.1.113883.6.90'', ''ICD10CM''),
      (''2.16.840.1.113883.6.103'', ''ICD9CM''), (''2.16.840.1.113883.6.12'', ''CPT4''),
      (''2.16.840.1.113883.6.14'', ''HCPCS''), (''2.16.840.1.113883.6.13'', ''HCPCS''),
      (''2.16.840.1.113883.12.292'', ''CVX''), (''2.16.840.1.113883.6.59'', ''CVX''),
      (''2.16.840.1.113883.6.69'', ''NDC''), (''2.16.840.1.113883.4.9'', ''UNII''),
      (''2.16.840.1.113883.3.26.1.5'', ''NDFRT''), (''2.16.840.1.113883.3.26.1.1'', ''NCI''),
      (''2.16.840.1.113883.5.4'', ''ActCode''),
      (''2.16.840.1.113883.5.112'', ''RouteOfAdministration''), (''SNOMED'', ''SNOMED''),
      (''SNOMED CT'', ''SNOMED''), (''SNOMEDCT'', ''SNOMED''), (''RxNorm'', ''RxNorm''),
      (''LOINC'', ''LOINC''), (''ICD10CM'', ''ICD10CM''), (''ICD-10-CM'', ''ICD10CM''),
      (''ICD10'', ''ICD10CM''), (''ICD9CM'', ''ICD9CM''), (''ICD-9-CM'', ''ICD9CM''),
      (''ICD9'', ''ICD9CM''), (''CPT4'', ''CPT4''), (''CPT'', ''CPT4''), (''CPT-4'', ''CPT4''),
      (''HCPCS'', ''HCPCS''), (''CVX'', ''CVX''), (''NDC'', ''NDC''), (''UNII'', ''UNII''),
      (''NDFRT'', ''NDFRT''), (''NDF-RT'', ''NDFRT''), (''NCI'', ''NCI''), (''NCIt'', ''NCI''),
      (''ActCode'', ''ActCode''), (''ASSERTION'', ''ActCode''),
      (''RouteOfAdministration'', ''RouteOfAdministration'')] \<and>
   (x \<notin> set
     [''2.16.840.1.113883.6.96'', ''2.16.840.1.113883.6.88'', ''2.16.840.1.113883.6.1'',
      ''2.16.840.1.113883.6.90'', ''2.16.840.1.113883.6.103'', ''2.16.840.1.113883.6.12'',
      ''2.16.840.1.113883.6.14'', ''2.16.840.1.113883.6.13'', ''2.16.840.1.113883.12.292'',
      ''2.16.840.1.113883.6.59'', ''2.16.840.1.113883.6.69'', ''2.16.840.1.113883.4.9'',
      ''2.16.840.1.113883.3.26.1.5'', ''2.16.840.1.113883.3.26.1.1'',
      ''2.16.840.1.113883.5.4'', ''2.16.840.1.113883.5.112'', ''SNOMED'', ''SNOMED CT'',
      ''SNOMEDCT'', ''RxNorm'', ''LOINC'', ''ICD10CM'', ''ICD-10-CM'', ''ICD10'', ''ICD9CM'',
      ''ICD-9-CM'', ''ICD9'', ''CPT4'', ''CPT'', ''CPT-4'', ''HCPCS'', ''CVX'', ''NDC'',
      ''UNII'', ''NDFRT'', ''NDF-RT'', ''NCI'', ''NCIt'', ''ActCode'', ''ASSERTION'',
      ''RouteOfAdministration''] \<longrightarrow>
      oid_to_vocabulary_id x = '''') \<and>
   oid_to_vocabulary_id ''ICD-10-CM'' = ''ICD10CM'' \<and>
   oid_to_vocabulary_id ''ICD10'' = ''ICD10CM'' \<and>
   oid_to_vocabulary_id ''ICD10CM'' = ''ICD10CM'' \<and>
   oid_to_vocabulary_id x \<in> set
     ('''' #
     [''SNOMED'', ''RxNorm'', ''LOINC'', ''ICD10CM'', ''ICD9CM'', ''CPT4'', ''HCPCS'', ''CVX'',
      ''NDC'', ''UNII'', ''NDFRT'', ''NCI'', ''ActCode'', ''RouteOfAdministration'']) \<and>
   list_all (\<lambda>v. oid_to_vocabulary_id v = v)
     [''SNOMED'', ''RxNorm'', ''LOINC'', ''ICD10CM'', ''ICD9CM'', ''CPT4'', ''HCPCS'', ''CVX'',
      ''NDC'', ''UNII'', ''NDFRT'', ''NCI'', ''ActCode'', ''RouteOfAdministration''] \<and>
   oid_to_vocabulary_id (oid_to_vocabulary_id x) = oid_to_vocabulary_id x"
proof (intro conjI)
  show "list_all (\<lambda>(k, v). oid_to_vocabulary_id k = v)
     [(''2.16.840.1.113883.6.96'', ''SNOMED''), (''2.16.840.1.113883.6.88'', ''RxNorm''),
      (''2.16.840.1.113883.6.1'', ''LOINC''), (''2.16.840.1.113883.6.90'', ''ICD10CM''),
      (''2.16.840.1.113883.6.103'', ''ICD9CM''), (''2.16.840.1.113883.6.12'', ''CPT4''),
      (''2.16.840.1.113883.6.14'', ''HCPCS''), (''2.16.840.1.113883.6.13'', ''HCPCS''),
      (''2.16.840.1.113883.12.292'', ''CVX''), (''2.16.840.1.113883.6.59'', ''CVX''),
      (''2.16.840.1.113883.6.69'', ''NDC''), (''2.16.840.1.113883.4.9'', ''UNII''),
      (''2.16.840.1.113883.3.26.1.5'', ''NDFRT''), (''2.16.840.1.113883.3.26.1.1'', ''NCI''),
      (''2.16.840.1.113883.5.4'', ''ActCode''),
      (''2.16.840.1.113883.5.112'', ''RouteOfAdministration''), (''SNOMED'', ''SNOMED''),
      (''SNOMED CT'', ''SNOMED''), (''SNOMEDCT'', ''SNOMED''), (''RxNorm'', ''RxNorm''),
      (''LOINC'', ''LOINC''), (''ICD10CM'', ''ICD10CM''), (''ICD-10-CM'', ''ICD10CM''),
      (''ICD10'', ''ICD10CM''), (''ICD9CM'', ''ICD9CM''), (''ICD-9-CM'', ''ICD9CM''),
      (''ICD9'', ''ICD9CM''), (''CPT4'', ''CPT4''), (''CPT'', ''CPT4''), (''CPT-4'', ''CPT4''),
      (''HCPCS'', ''HCPCS''), (''CVX'', ''CVX''), (''NDC'', ''NDC''), (''UNII'', ''UNII''),
      (''NDFRT'', ''NDFRT''), (''NDF-RT'', ''NDFRT''), (''NCI'', ''NCI''), (''NCIt'', ''NCI''),
      (''ActCode'', ''ActCode''), (''ASSERTION'', ''ActCode''),
      (''RouteOfAdministration'', ''RouteOfAdministration'')]"
    by (rule oid_to_vocabulary_id_pairs)
  show "x \<notin> set
     [''2.16.840.1.113883.6.96'', ''2.16.840.1.113883.6.88'', ''2.16.840.1.113883.6.1'',
      ''2.16.840.1.113883.6.90'', ''2.16.840.1.113883.6.103'', ''2.16.840.1.113883.6.12'',
      ''2.16.840.1.113883.6.14'', ''2.16.840.1.113883.6.13'', ''2.16.840.1.113883.12.292'',
      ''2.16.840.1.113883.6.59'', ''2.16.840.1.113883.6.69'', ''2.16.840.1.113883.4.9'',
      ''2.16.840.1.113883.3.26.1.5'', ''2.16.840.1.113883.3.26.1.1'',
      ''2.16.840.1.113883.5.4'', ''2.16.840.1.113883.5.112'', ''SNOMED'', ''SNOMED CT'',
      ''SNOMEDCT'', ''RxNorm'', ''LOINC'', ''ICD10CM'', ''ICD-10-CM'', ''ICD10'', ''ICD9CM'',
      ''ICD-9-CM'', ''ICD9'', ''CPT4'', ''CPT'', ''CPT-4'', ''HCPCS'', ''CVX'', ''NDC'',
      ''UNII'', ''NDFRT'', ''NDF-RT'', ''NCI'', ''NCIt'', ''ActCode'', ''ASSERTION'',
      ''RouteOfAdministration''] \<longrightarrow>
      oid_to_vocabulary_id x = ''''"
  proof
    assume "x \<notin> set
     [''2.16.840.1.113883.6.96'', ''2.16.840.1.113883.6.88'', ''2.16.840.1.113883.6.1'',
      ''2.16.840.1.113883.6.90'', ''2.16.840.1.113883.6.103'', ''2.16.840.1.113883.6.12'',
      ''2.16.840.1.113883.6.14'', ''2.16.840.1.113883.6.13'', ''2.16.840.1.113883.12.292'',
      ''2.16.840.1.113883.6.59'', ''2.16.840.1.113883.6.69'', ''2.16.840.1.113883.4.9'',
      ''2.16.840.1.113883.3.26.1.5'', ''2.16.840.1.113883.3.26.1.1'',
      ''2.16.840.1.113883.5.4'', ''2.16.840.1.113883.5.112'', ''SNOMED'', ''SNOMED CT'',
      ''SNOMEDCT'', ''RxNorm'', ''LOINC'', ''ICD10CM'', ''ICD-10-CM'', ''ICD10'', ''ICD9CM'',
      ''ICD-9-CM'', ''ICD9'', ''CPT4'', ''CPT'', ''CPT-4'', ''HCPCS'', ''CVX'', ''NDC'',
      ''UNII'', ''NDFRT'', ''NDF-RT'', ''NCI'', ''NCIt'', ''ActCode'', ''ASSERTION'',
      ''RouteOfAdministration'']"
    then have "x \<notin> set (map fst oid_mapping)" unfolding oid_mapping_keys .
    then have "x \<notin> fst ` set oid_mapping" by simp
    then show "oid_to_vocabulary_id x = ''''" by (rule oid_to_vocabulary_id_outside)
  qed
  show "oid_to_vocabulary_id ''ICD-10-CM'' = ''ICD10CM''" by code_simp
  show "oid_to_vocabulary_id ''ICD10'' = ''ICD10CM''" by code_simp
  show "oid_to_vocabulary_id ''ICD10CM'' = ''ICD10CM''" by code_simp
  show "oid_to_vocabulary_id x \<in> set
     ('''' #
     [''SNOMED'', ''RxNorm'', ''LOINC'', ''ICD10CM'', ''ICD9CM'', ''CPT4'', ''HCPCS'', ''CVX'',
      ''NDC'', ''UNII'', ''NDFRT'', ''NCI'', ''ActCode'', ''RouteOfAdministration''])"
    using oid_to_vocabulary_id_range [of x] by (simp add: canonical_vocabulary_ids_def)
  show "list_all (\<lambda>v. oid_to_vocabulary_id v = v)
     [''SNOMED'', ''RxNorm'', ''LOINC'', ''ICD10CM'', ''ICD9CM'', ''CPT4'', ''HCPCS'', ''CVX'',
      ''NDC'', ''UNII'', ''NDFRT'', ''NCI'', ''ActCode'', ''RouteOfAdministration'']"
    using oid_to_vocabulary_id_canonical_all by (simp only: canonical_vocabulary_ids_def)
  show "oid_to_vocabulary_id (oid_to_vocabulary_id x) = oid_to_vocabulary_id x"
    by (rule oid_to_vocabulary_id_idem)
qed

theorem oid_to_vocabulary_id_table_witness:
  "''icd10cm'' \<notin> set
     [''2.16.840.1.113883.6.96'', ''2.16.840.1.113883.6.88'', ''2.16.840.1.113883.6.1'',
      ''2.16.840.1.113883.6.90'', ''2.16.840.1.113883.6.103'', ''2.16.840.1.113883.6.12'',
      ''2.16.840.1.113883.6.14'', ''2.16.840.1.113883.6.13'', ''2.16.840.1.113883.12.292'',
      ''2.16.840.1.113883.6.59'', ''2.16.840.1.113883.6.69'', ''2.16.840.1.113883.4.9'',
      ''2.16.840.1.113883.3.26.1.5'', ''2.16.840.1.113883.3.26.1.1'',
      ''2.16.840.1.113883.5.4'', ''2.16.840.1.113883.5.112'', ''SNOMED'', ''SNOMED CT'',
      ''SNOMEDCT'', ''RxNorm'', ''LOINC'', ''ICD10CM'', ''ICD-10-CM'', ''ICD10'', ''ICD9CM'',
      ''ICD-9-CM'', ''ICD9'', ''CPT4'', ''CPT'', ''CPT-4'', ''HCPCS'', ''CVX'', ''NDC'',
      ''UNII'', ''NDFRT'', ''NDF-RT'', ''NCI'', ''NCIt'', ''ActCode'', ''ASSERTION'',
      ''RouteOfAdministration''] \<and>
   oid_to_vocabulary_id ''icd10cm'' = '''' \<and>
   oid_to_vocabulary_id ''2.16.840.1.113883.6.96'' = ''SNOMED'' \<and>
   oid_to_vocabulary_id ''NDF-RT'' = ''NDFRT''"
proof -
  have n: "''icd10cm'' \<notin> set
     [''2.16.840.1.113883.6.96'', ''2.16.840.1.113883.6.88'', ''2.16.840.1.113883.6.1'',
      ''2.16.840.1.113883.6.90'', ''2.16.840.1.113883.6.103'', ''2.16.840.1.113883.6.12'',
      ''2.16.840.1.113883.6.14'', ''2.16.840.1.113883.6.13'', ''2.16.840.1.113883.12.292'',
      ''2.16.840.1.113883.6.59'', ''2.16.840.1.113883.6.69'', ''2.16.840.1.113883.4.9'',
      ''2.16.840.1.113883.3.26.1.5'', ''2.16.840.1.113883.3.26.1.1'',
      ''2.16.840.1.113883.5.4'', ''2.16.840.1.113883.5.112'', ''SNOMED'', ''SNOMED CT'',
      ''SNOMEDCT'', ''RxNorm'', ''LOINC'', ''ICD10CM'', ''ICD-10-CM'', ''ICD10'', ''ICD9CM'',
      ''ICD-9-CM'', ''ICD9'', ''CPT4'', ''CPT'', ''CPT-4'', ''HCPCS'', ''CVX'', ''NDC'',
      ''UNII'', ''NDFRT'', ''NDF-RT'', ''NCI'', ''NCIt'', ''ActCode'', ''ASSERTION'',
      ''RouteOfAdministration'']"
    by simp
  note t = oid_to_vocabulary_id_table [of "''icd10cm''"]
  from t have "''icd10cm'' \<notin> set
     [''2.16.840.1.113883.6.96'', ''2.16.840.1.113883.6.88'', ''2.16.840.1.113883.6.1'',
      ''2.16.840.1.113883.6.90'', ''2.16.840.1.113883.6.103'', ''2.16.840.1.113883.6.12'',
      ''2.16.840.1.113883.6.14'', ''2.16.840.1.113883.6.13'', ''2.16.840.1.113883.12.292'',
      ''2.16.840.1.113883.6.59'', ''2.16.840.1.113883.6.69'', ''2.16.840.1.113883.4.9'',
      ''2.16.840.1.113883.3.26.1.5'', ''2.16.840.1.113883.3.26.1.1'',
      ''2.16.840.1.113883.5.4'', ''2.16.840.1.113883.5.112'', ''SNOMED'', ''SNOMED CT'',
      ''SNOMEDCT'', ''RxNorm'', ''LOINC'', ''ICD10CM'', ''ICD-10-CM'', ''ICD10'', ''ICD9CM'',
      ''ICD-9-CM'', ''ICD9'', ''CPT4'', ''CPT'', ''CPT-4'', ''HCPCS'', ''CVX'', ''NDC'',
      ''UNII'', ''NDFRT'', ''NDF-RT'', ''NCI'', ''NCIt'', ''ActCode'', ''ASSERTION'',
      ''RouteOfAdministration''] \<longrightarrow>
      oid_to_vocabulary_id ''icd10cm'' = ''''"
    by (elim conjE)
  from this n have r: "oid_to_vocabulary_id ''icd10cm'' = ''''"
    by (rule mp)
  from t have "list_all (\<lambda>(k, v). oid_to_vocabulary_id k = v)
     [(''2.16.840.1.113883.6.96'', ''SNOMED''), (''2.16.840.1.113883.6.88'', ''RxNorm''),
      (''2.16.840.1.113883.6.1'', ''LOINC''), (''2.16.840.1.113883.6.90'', ''ICD10CM''),
      (''2.16.840.1.113883.6.103'', ''ICD9CM''), (''2.16.840.1.113883.6.12'', ''CPT4''),
      (''2.16.840.1.113883.6.14'', ''HCPCS''), (''2.16.840.1.113883.6.13'', ''HCPCS''),
      (''2.16.840.1.113883.12.292'', ''CVX''), (''2.16.840.1.113883.6.59'', ''CVX''),
      (''2.16.840.1.113883.6.69'', ''NDC''), (''2.16.840.1.113883.4.9'', ''UNII''),
      (''2.16.840.1.113883.3.26.1.5'', ''NDFRT''), (''2.16.840.1.113883.3.26.1.1'', ''NCI''),
      (''2.16.840.1.113883.5.4'', ''ActCode''),
      (''2.16.840.1.113883.5.112'', ''RouteOfAdministration''), (''SNOMED'', ''SNOMED''),
      (''SNOMED CT'', ''SNOMED''), (''SNOMEDCT'', ''SNOMED''), (''RxNorm'', ''RxNorm''),
      (''LOINC'', ''LOINC''), (''ICD10CM'', ''ICD10CM''), (''ICD-10-CM'', ''ICD10CM''),
      (''ICD10'', ''ICD10CM''), (''ICD9CM'', ''ICD9CM''), (''ICD-9-CM'', ''ICD9CM''),
      (''ICD9'', ''ICD9CM''), (''CPT4'', ''CPT4''), (''CPT'', ''CPT4''), (''CPT-4'', ''CPT4''),
      (''HCPCS'', ''HCPCS''), (''CVX'', ''CVX''), (''NDC'', ''NDC''), (''UNII'', ''UNII''),
      (''NDFRT'', ''NDFRT''), (''NDF-RT'', ''NDFRT''), (''NCI'', ''NCI''), (''NCIt'', ''NCI''),
      (''ActCode'', ''ActCode''), (''ASSERTION'', ''ActCode''),
      (''RouteOfAdministration'', ''RouteOfAdministration'')]"
    by (rule conjunct1)
  then have "oid_to_vocabulary_id ''2.16.840.1.113883.6.96'' = ''SNOMED''"
    and "oid_to_vocabulary_id ''NDF-RT'' = ''NDFRT''"
    by simp_all
  with n r show ?thesis by (intro conjI)
qed

section \<open>Properties of the vocabulary index\<close>

lemma relationship_row_concept_by_id:
  "concept_by_id (fst (relationship_row py_int L row)) = concept_by_id L"
  by (simp add: relationship_row_def split: option.splits)

lemma relationship_row_concept_index:
  "concept_index (fst (relationship_row py_int L row)) = concept_index L"
  by (simp add: relationship_row_def split: option.splits)

lemma relationship_row_maps_to:
  "maps_to_get (fst (relationship_row py_int L row)) cid =
     maps_to_get L cid @ live_targets py_int L [row] cid"
  by (auto simp: relationship_row_def live_targets_def live_edge_def maps_to_get_def
      split: option.splits)

lemma live_targets_cong:
  "concept_by_id L' = concept_by_id L \<Longrightarrow>
   live_targets py_int L' rows cid = live_targets py_int L rows cid"
proof -
  assume "concept_by_id L' = concept_by_id L"
  then have "live_edge py_int L' cid = live_edge py_int L cid"
    by (intro ext) (simp add: live_edge_def)
  then show ?thesis by (simp add: live_targets_def)
qed

lemma live_targets_Cons:
  "live_targets py_int L (row # rows) cid =
     live_targets py_int L [row] cid @ live_targets py_int L rows cid"
  by (simp add: live_targets_def)

lemma relationship_rows_maps_to:
  "maps_to_get (fst (relationship_rows py_int L n rows)) cid =
     maps_to_get L cid @ live_targets py_int L rows cid"
proof (induction rows arbitrary: L n)
  case Nil
  then show ?case by (simp add: live_targets_def)
next
  case (Cons row rows)
  obtain L' counted where step: "relationship_row py_int L row = (L', counted)"
    by (cases "relationship_row py_int L row")
  have by_id: "concept_by_id L' = concept_by_id L"
    using relationship_row_concept_by_id [of py_int L row] step by simp
  have one: "maps_to_get L' cid = maps_to_get L cid @ live_targets py_int L [row] cid"
    using relationship_row_maps_to [of py_int L row cid] step by simp
  have "maps_to_get (fst (relationship_rows py_int L n (row # rows))) cid =
        maps_to_get L' cid @ live_targets py_int L' rows cid"
    using step Cons.IH by simp
  also have "\<dots> = maps_to_get L cid @ live_targets py_int L (row # rows) cid"
    using one live_targets_cong [OF by_id] live_targets_Cons [of py_int L row rows cid] by simp
  finally show ?case .
qed

lemma load_concept_relationships_maps_to:
  assumes "load_concept_relationships py_int L0 file = Inr (L, n)"
  shows "maps_to_get L cid = maps_to_get L0 cid @ live_targets py_int L0 (tl file) cid"
proof -
  from assms obtain header rows where f: "file = header # rows"
    and r: "relationship_rows py_int L0 0 rows = (L, n)"
    by (auto simp: load_concept_relationships_def split: list.splits if_splits)
  from r have "L = fst (relationship_rows py_int L0 0 rows)" by simp
  then show ?thesis using relationship_rows_maps_to [of py_int L0 0 rows cid] f by simp
qed

text \<open>
  C1. \<open>get_standard_concept_ids\<close> returns the empty list for a key with no concept in the
  index. For a concept that is found it returns the concept's own id when the concept is
  flagged \<open>S\<close>, otherwise the recorded \<open>Maps to\<close> targets when there are any, otherwise
  the concept's own id; the result is never empty. The recorded targets of an index
  produced by \<open>load_concept_relationships\<close> are the targets recorded before, followed by
  the targets of the file's live \<open>Maps to\<close> rows for that concept id in the order of the
  rows.
\<close>

theorem get_standard_concept_ids_cases:
  "(lookup_concept L vocab_id code = None \<longrightarrow> get_standard_concept_ids L vocab_id code = []) \<and>
   (\<forall>concept. lookup_concept L vocab_id code = Some concept \<longrightarrow>
      get_standard_concept_ids L vocab_id code =
        (if standard_concept concept = ''S'' then [concept_id concept]
         else if maps_to_get L (concept_id concept) \<noteq> [] then maps_to_get L (concept_id concept)
         else [concept_id concept]) \<and>
      get_standard_concept_ids L vocab_id code \<noteq> []) \<and>
   (\<forall>L0 file n. load_concept_relationships py_int L0 file = Inr (L, n) \<longrightarrow>
      maps_to_get L cid = maps_to_get L0 cid @ live_targets py_int L0 (tl file) cid)"
  using load_concept_relationships_maps_to
  by (auto simp: get_standard_concept_ids_def Let_def)

lemma example_load:
  "load_concept_relationships dec_int example_index example_relationships = Inr (example_loaded, 2)"
  by (simp add: load_concept_relationships_def example_relationships_def example_loaded_def
      startswith_def relationship_row_def example_index_def dec_int_def maps_to_get_def)

lemma example_lookup:
  "lookup_concept example_loaded ''ICD10CM'' ''E11.9'' = Some example_concept"
  by (simp add: example_loaded_def example_relationships_def lookup_concept_def concept_key_def
      relationship_row_def example_index_def dec_int_def maps_to_get_def)

theorem get_standard_concept_ids_cases_witness:
  "lookup_concept example_loaded ''ICD10CM'' ''E11.9'' = Some example_concept \<and>
   lookup_concept example_loaded ''ICD10CM'' ''E11.8'' = None \<and>
   load_concept_relationships dec_int example_index example_relationships = Inr (example_loaded, 2) \<and>
   get_standard_concept_ids example_loaded ''ICD10CM'' ''E11.8'' = [] \<and>
   get_standard_concept_ids example_loaded ''ICD10CM'' ''E11.9'' = [201826, 4193704]"
proof -
  have none: "lookup_concept example_loaded ''ICD10CM'' ''E11.8'' = None"
    by (simp add: example_loaded_def example_relationships_def lookup_concept_def concept_key_def
        relationship_row_def example_index_def dec_int_def maps_to_get_def)
  have targets:
    "live_targets dec_int example_index (tl example_relationships) 35206882 = [201826, 4193704]"
    by (simp add: live_targets_def live_edge_def example_relationships_def example_index_def
        dec_int_def)
  have old: "maps_to_get example_index 35206882 = []"
    by (simp add: maps_to_get_def example_index_def)
  have flag: "standard_concept example_concept \<noteq> ''S''" "concept_id example_concept = 35206882"
    by (simp_all add: example_concept_def)
  from get_standard_concept_ids_cases [of example_loaded "''ICD10CM''" "''E11.8''" dec_int 35206882]
    none
  have r1: "get_standard_concept_ids example_loaded ''ICD10CM'' ''E11.8'' = []"
    by blast
  from get_standard_concept_ids_cases [of example_loaded "''ICD10CM''" "''E11.9''" dec_int 35206882]
    example_lookup example_load
  have r2: "get_standard_concept_ids example_loaded ''ICD10CM'' ''E11.9'' =
        (if standard_concept example_concept = ''S'' then [concept_id example_concept]
         else if maps_to_get example_loaded (concept_id example_concept) \<noteq> []
              then maps_to_get example_loaded (concept_id example_concept)
         else [concept_id example_concept])"
    and m: "maps_to_get example_loaded 35206882 =
        maps_to_get example_index 35206882 @
        live_targets dec_int example_index (tl example_relationships) 35206882"
    by blast+
  from r2 m targets old flag
  have "get_standard_concept_ids example_loaded ''ICD10CM'' ''E11.9'' = [201826, 4193704]"
    by simp
  with none example_lookup example_load r1 show ?thesis by blast
qed

section \<open>Properties of the identifier generator\<close>

lemma update_values_encode_parts:
  "update_values h vals =
     (case encode_parts vals of
        Inl e \<Rightarrow> Inl e
      | Inr bs \<Rightarrow> Inr (h @ concat (map (\<lambda>b. b @ [0]) bs)))"
  by (induction vals arbitrary: h) (auto split: sum.splits)

lemma big_endian_bound:
  "0 \<le> foldl (\<lambda>acc x. acc * 256 + uint (x :: byte)) 0 b \<and>
   foldl (\<lambda>acc x. acc * 256 + uint (x :: byte)) 0 b < 256 ^ length b"
proof (induction b rule: rev_induct)
  case Nil
  then show ?case by simp
next
  case (snoc x xs)
  have "0 \<le> uint x" "uint x < 256" using uint_lt2p [of x] by simp_all
  with snoc show ?case by simp
qed

lemma big_endian_horner:
  "foldl (\<lambda>acc x. acc * 256 + uint (x :: byte)) 0 b = horner_sum uint 256 (rev b)"
  by (induction b rule: rev_induct) simp_all

lemma sint64:
  assumes "0 \<le> x" "x < 2 ^ 64"
  shows "sint (word_of_int x :: 64 word) = (if x > 2 ^ 63 - 1 then x - 2 ^ 64 else x)"
proof (cases "x > 2 ^ 63 - 1")
  case True
  have "(x + 2 ^ 63) mod 2 ^ 64 = x + 2 ^ 63 - 2 ^ 64"
    using assms True by (intro int_mod_pos_eq [where q = 1]) simp_all
  then show ?thesis using True by (simp add: int_word_sint)
next
  case False
  have "(x + 2 ^ 63) mod 2 ^ 64 = x + 2 ^ 63"
    using assms False by (intro mod_pos_pos_trivial) simp_all
  then show ?thesis using False by (simp add: int_word_sint)
qed

lemma word_rcat_big_endian:
  "(word_rcat (b :: byte list) :: 64 word) =
     word_of_int (foldl (\<lambda>acc x. acc * 256 + uint x) 0 b)"
  by (simp add: word_rcat_def big_endian_horner)

lemma generate_id_reference_eq:
  assumes len: "\<forall>m. length (sha256 m) = 32"
  shows "generate_id sha256 parts = generate_id_reference sha256 parts"
proof (cases "encode_parts parts")
  case (Inl e)
  then show ?thesis
    by (simp add: generate_id_def generate_id_reference_def update_values_encode_parts)
next
  case (Inr bs)
  define d where "d = take 8 (sha256 (concat (map (\<lambda>b. b @ [0]) bs)))"
  define k where "k = foldl (\<lambda>acc x. acc * 256 + uint x) 0 d"
  have d8: "length d = 8" using len by (simp add: d_def)
  have "0 \<le> k \<and> k < 256 ^ length d"
    unfolding k_def by (rule big_endian_bound)
  then have k: "0 \<le> k" "k < 2 ^ 64" using d8 by simp_all
  have u: "unpack_Q d = Inr k"
    using d8 by (simp add: unpack_Q_def k_def)
  have "generate_id sha256 parts =
      (case unpack_Q d of
         Inl e \<Rightarrow> Inl e
       | Inr raw_id \<Rightarrow> Inr \<bar>if raw_id > 2 ^ 63 - 1 then raw_id - 2 ^ 64 else raw_id\<bar>)"
    using Inr by (simp add: generate_id_def update_values_encode_parts Let_def d_def split: sum.splits)
  then have code: "generate_id sha256 parts = Inr \<bar>if k > 2 ^ 63 - 1 then k - 2 ^ 64 else k\<bar>"
    using u by simp
  have ref: "generate_id_reference sha256 parts = Inr \<bar>sint (word_of_int k :: 64 word)\<bar>"
    using Inr
    by (simp add: generate_id_reference_def d_def [symmetric] word_rcat_big_endian k_def)
  show ?thesis using code ref sint64 [OF k] by simp
qed

text \<open>
  C2. With a digest function that returns 32 bytes, as SHA-256 does, \<open>generate_id\<close> equals
  the reference definition on every tuple of parts: either both raise the encoding error
  of the first part that cannot be encoded, or both return the absolute value of the
  signed reading of the first eight digest bytes. Equal tuples of parts give equal results.
\<close>

theorem generate_id_refines_reference:
  assumes "\<forall>m. length (sha256 m) = 32"
  shows "generate_id sha256 parts = generate_id_reference sha256 parts \<and>
         (\<forall>parts'. parts' = parts \<longrightarrow> generate_id sha256 parts' = generate_id sha256 parts)"
  using generate_id_reference_eq [OF assms] by simp

theorem generate_id_refines_reference_witness:
  "(\<forall>m. length (example_digest m) = 32) \<and>
   generate_id example_digest [[0xE9], [0x31, 0x32]] = Inr 4347943753957179393 \<and>
   generate_id_reference example_digest [[0xE9], [0x31, 0x32]] = Inr 4347943753957179393"
proof -
  have len: "\<forall>m. length (example_digest m) = 32"
    by (simp add: example_digest_def min_def)
  have a: "update_values [] [[0xE9], [0x31, 0x32]] = Inr [0xC3, 0xA9, 0, 0x31, 0x32, 0]"
    by code_simp
  have b: "take 8 (example_digest [0xC3, 0xA9, 0, 0x31, 0x32, 0]) =
      [0xC3, 0xA9, 0, 0x31, 0x32, 0, 0xFF, 0xFF]"
    by code_simp
  have c: "unpack_Q [0xC3, 0xA9, 0, 0x31, 0x32, 0, 0xFF, 0xFF] = Inr 14098800319752372223"
    by (simp add: unpack_Q_def)
  have "generate_id example_digest [[0xE9], [0x31, 0x32]] = Inr 4347943753957179393"
    unfolding generate_id_def a by (simp add: b c)
  with generate_id_refines_reference [OF len, of "[[0xE9], [0x31, 0x32]]"] len
  show ?thesis by simp
qed

section \<open>Properties of the rule execution engine\<close>


lemma then_do_Inr: "then_do (Inr x) f = f x"
  by (simp add: then_do_def)

lemma then_do_eq_Inl:
  "then_do r f = Inl x \<longleftrightarrow> r = Inl x \<or> (\<exists>y. r = Inr y \<and> f y = Inl x)"
  by (cases r) (simp_all add: then_do_def)

lemma update_not_Nil: "AList.update k v al \<noteq> []"
  by (cases al) auto

lemma create_record_not_Nil:
  "create_record X vocab rule e pid rid cid vm er = Some r \<Longrightarrow> r \<noteq> []"
  by (auto simp: create_record_def update_not_Nil split: option.splits)

lemma fan_out_enumerate:
  "fan_out X vocab rule e pid base_id vm er i cids =
     List.map_filter (\<lambda>(j, c). create_record X vocab rule e pid (base_id + int j) c vm er)
       (enumerate i cids)"
proof (induction cids arbitrary: i)
  case Nil
  then show ?case by simp
next
  case (Cons c cs)
  show ?case
  proof (cases "create_record X vocab rule e pid (base_id + int i) c vm er")
    case None
    then show ?thesis using Cons.IH [of "Suc i"] by simp
  next
    case (Some r)
    then have "r \<noteq> []" by (rule create_record_not_Nil)
    then show ?thesis using Some Cons.IH [of "Suc i"] by simp
  qed
qed

text \<open>
  Whether a field has a value does not depend on the concept id: the only transform that
  reads the concept id is \<open>vocab\<close>, and it always has a value.
\<close>

lemma no_value_iff: "no_value r \<longleftrightarrow> (\<forall>v. r \<noteq> Inr (Some v))"
  by (auto simp: no_value_def split: sum.splits option.splits)

lemma extract_field_value_no_value:
  "no_value (extract_field_value X vocab e fm cid vm) =
   no_value (extract_field_value X vocab e fm cid' vm)"
  by (simp add: extract_field_value_def no_value_def)

lemma create_record_fields_None:
  "create_record_fields X vocab e cid vm er rec fms = None \<longleftrightarrow>
   create_record_fields X vocab e cid' vm er rec' fms = None"
proof (induction fms arbitrary: rec rec')
  case Nil
  then show ?case by simp
next
  case (Cons fm fms)
  have nv: "no_value (extract_field_value X vocab e fm cid vm) =
            no_value (extract_field_value X vocab e fm cid' vm)"
    by (rule extract_field_value_no_value)
  show ?case
  proof (cases "no_value (extract_field_value X vocab e fm cid vm)")
    case True
    with nv have True': "no_value (extract_field_value X vocab e fm cid' vm)" by simp
    from True True' Cons.IH [of rec rec'] show ?thesis
      by (auto simp: no_value_def Let_def split: sum.splits option.splits)
  next
    case False
    with nv have False': "\<not> no_value (extract_field_value X vocab e fm cid' vm)" by simp
    from False obtain v where v: "extract_field_value X vocab e fm cid vm = Inr (Some v)"
      by (auto simp: no_value_def split: sum.splits option.splits)
    from False' obtain v' where v': "extract_field_value X vocab e fm cid' vm = Inr (Some v')"
      by (auto simp: no_value_def split: sum.splits option.splits)
    from v v' Cons.IH [of "AList.update (fm_target fm) v rec" "AList.update (fm_target fm) v' rec'"]
    show ?thesis by (simp add: Let_def)
  qed
qed

lemma create_record_None:
  "create_record X vocab rule e pid rid cid vm er = None \<longleftrightarrow>
   create_record X vocab rule e pid rid' cid' vm er = None"
  using create_record_fields_None
    [of X vocab e cid vm er "initial_record rule pid rid" "rule_fields rule" cid'
        "initial_record rule pid rid'"]
  by (auto simp: create_record_def split: option.splits)

lemma map_filter_all_or_nothing:
  assumes "\<And>x y. x \<in> set xs \<Longrightarrow> y \<in> set xs \<Longrightarrow> f x = None \<longleftrightarrow> f y = None"
  shows "List.map_filter f xs = [] \<or> length (List.map_filter f xs) = length xs"
proof (cases "\<exists>x \<in> set xs. f x = None")
  case True
  then have "\<forall>y \<in> set xs. f y = None" using assms by blast
  then have "List.map_filter f xs = []"
    by (induction xs) simp_all
  then show ?thesis by simp
next
  case False
  then have "length (List.map_filter f xs) = length xs"
    by (induction xs) (auto split: option.splits)
  then show ?thesis by simp
qed

lemma fan_out_all_or_nothing:
  "fan_out X vocab rule e pid base_id vm er i cids = [] \<or>
   length (fan_out X vocab rule e pid base_id vm er i cids) = length cids"
proof -
  let ?f = "\<lambda>(j, c). create_record X vocab rule e pid (base_id + int j) c vm er"
  have "List.map_filter ?f (enumerate i cids) = [] \<or>
        length (List.map_filter ?f (enumerate i cids)) = length (enumerate i cids)"
  proof (rule map_filter_all_or_nothing)
    fix x y :: "nat \<times> int"
    show "?f x = None \<longleftrightarrow> ?f y = None"
      using create_record_None [of X vocab rule e pid "base_id + int (fst x)" "snd x" vm er
          "base_id + int (fst y)" "snd y"]
      by (simp add: case_prod_beta)
  qed
  then show ?thesis by (simp add: fan_out_enumerate)
qed

lemma map_entry_excluded:
  "\<not> should_include_entry entry \<Longrightarrow> map_entry X vocab rule entry pid vm er = Inr []"
  by (simp add: map_entry_def)

lemma map_entry_included:
  assumes "should_include_entry (Some e)"
  shows "map_entry X vocab rule (Some e) pid vm er =
     then_do (extract_concept_ids X vocab rule e er) (\<lambda>found.
       if found = [] \<and> er then Inr []
       else
         (let cids = (if found = [] then [0] else found)
          in if src_conditions (rule_source rule) \<noteq> [] \<and>
                \<not> check_conditions vocab (src_conditions (rule_source rule)) e (hd cids)
             then Inr []
             else
               then_do (engine_generate_id X rule e pid) (\<lambda>base_id.
                 Inr (fan_out X vocab rule e pid base_id vm er 0 cids))))"
  using assms by (simp add: map_entry_def)

lemma check_conditions_iff:
  "check_conditions vocab conds e c \<longleftrightarrow>
     (\<forall>cond \<in> set conds.
        (cond_type cond = ''domain_equals'' \<longrightarrow>
           mapper_get_concept_domain vocab c = cond_value cond) \<and>
        (cond_type cond = ''domain_not_equals'' \<longrightarrow>
           mapper_get_concept_domain vocab c \<noteq> cond_value cond))"
  by (induction conds) auto

lemma map_filter_length_le: "length (List.map_filter f xs) \<le> length xs"
  by (induction xs) (auto simp: List.map_filter_simps split: option.splits)

lemma map_filter_full:
  "length (List.map_filter f xs) = length xs \<Longrightarrow> map f xs = map Some (List.map_filter f xs)"
proof (induction xs)
  case Nil
  then show ?case by (simp add: List.map_filter_simps)
next
  case (Cons x xs)
  show ?case
  proof (cases "f x")
    case None
    with Cons.prems map_filter_length_le [of f xs] show ?thesis
      by (simp add: List.map_filter_simps)
  next
    case (Some y)
    with Cons show ?thesis by (simp add: List.map_filter_simps)
  qed
qed

lemma fan_out_full:
  assumes "length (fan_out X vocab rule e pid base_id vm er 0 cids) = length cids"
    and "i < length cids"
  shows "create_record X vocab rule e pid (base_id + int i) (cids ! i) vm er =
           Some (fan_out X vocab rule e pid base_id vm er 0 cids ! i)"
proof -
  let ?f = "\<lambda>(j, c). create_record X vocab rule e pid (base_id + int j) c vm er"
  have "length (List.map_filter ?f (enumerate 0 cids)) = length (enumerate 0 cids)"
    using assms(1) by (simp add: fan_out_enumerate)
  then have "map ?f (enumerate 0 cids) = map Some (List.map_filter ?f (enumerate 0 cids))"
    by (rule map_filter_full)
  then have "map ?f (enumerate 0 cids) ! i =
      map Some (fan_out X vocab rule e pid base_id vm er 0 cids) ! i"
    by (simp add: fan_out_enumerate)
  then show ?thesis using assms by (simp add: nth_enumerate_eq)
qed

text \<open>
  Where the run with required entries resolves no concept id, the run without them
  resolves none or stops at the placeholder.
\<close>

lemma extract_concept_ids_loop_not_required:
  "extract_concept_ids_loop X vocab e True fms = Inr [] \<Longrightarrow>
   extract_concept_ids_loop X vocab e False fms = Inr [] \<or>
   extract_concept_ids_loop X vocab e False fms = Inr [0]"
proof (induction fms)
  case Nil
  then show ?case by simp
next
  case (Cons fm fms)
  then show ?case
    by (auto simp: then_do_def Let_def split: sum.splits if_splits)
qed

text \<open>When the construction of a record ends without a record.\<close>

lemma create_record_fields_None_iff:
  "create_record_fields X vocab e cid vm er rec fms = None \<longleftrightarrow>
     er \<and> (\<exists>fm \<in> set fms. \<not> fm_optional fm \<and> no_value (extract_field_value X vocab e fm cid vm))"
proof (induction fms arbitrary: rec)
  case Nil
  then show ?case by simp
next
  case (Cons fm fms)
  show ?case
  proof (cases "extract_field_value X vocab e fm cid vm")
    case (Inl x)
    then show ?thesis using Cons.IH [of rec] by (auto simp: no_value_def)
  next
    case (Inr v)
    then show ?thesis
      using Cons.IH [of rec] Cons.IH [of "AList.update (fm_target fm) (the v) rec"]
      by (cases v) (auto simp: no_value_def)
  qed
qed

lemma create_record_None_iff:
  "create_record X vocab rule e pid rid cid vm er = None \<longleftrightarrow>
     er \<and> (\<exists>fm \<in> set (rule_fields rule).
             \<not> fm_optional fm \<and> no_value (extract_field_value X vocab e fm cid vm))"
  using create_record_fields_None_iff
    [of X vocab e cid vm er "initial_record rule pid rid" "rule_fields rule"]
  by (auto simp: create_record_def split: option.splits)

text \<open>The keys of a record that no field mapping targets keep their first values.\<close>

lemma create_record_fields_other_key:
  "create_record_fields X vocab e cid vm er rec fms = Some r \<Longrightarrow>
   k \<notin> fm_target ` set fms \<Longrightarrow> map_of r k = map_of rec k"
proof (induction fms arbitrary: rec)
  case Nil
  then show ?case by simp
next
  case (Cons fm fms)
  then show ?case
    by (auto simp: Let_def update_conv' split: sum.splits option.splits if_splits)
qed

lemma type_field_not_person_id: "type_field rule \<noteq> ''person_id''"
proof
  assume "type_field rule = ''person_id''"
  then have "length (type_field rule) = 9" by simp
  then show False by (simp add: type_field_def)
qed

lemma create_record_keys:
  assumes "create_record X vocab rule e pid rid cid vm er = Some r"
  shows "map_of r ''mapping_rule'' = Some (VStr (''RuleMapper:'' @ rule_name rule))"
    and "type_field rule \<notin> fm_target ` set (rule_fields rule) \<Longrightarrow>
         map_of r (type_field rule) = Some (VInt (tgt_type_concept_id (rule_target rule)))"
    and "''person_id'' \<notin> fm_target ` set (rule_fields rule) \<Longrightarrow>
         map_of r ''person_id'' = Some (VInt pid)"
    and "id_field rule \<notin> fm_target ` set (rule_fields rule) \<Longrightarrow>
         id_field rule \<noteq> ''person_id'' \<Longrightarrow> id_field rule \<noteq> type_field rule \<Longrightarrow>
         map_of r (id_field rule) = Some (VInt rid)"
proof -
  from assms obtain rec where
    rec: "create_record_fields X vocab e cid vm er (initial_record rule pid rid) (rule_fields rule) =
            Some rec"
    and r: "r = AList.update ''mapping_rule'' (VStr (''RuleMapper:'' @ rule_name rule)) rec"
    by (auto simp: create_record_def split: option.splits)
  have mr_type: "type_field rule \<noteq> ''mapping_rule''"
  proof
    assume "type_field rule = ''mapping_rule''"
    then have "length (type_field rule) = 12" by simp
    then show False by (simp add: type_field_def)
  qed
  have mr_id: "id_field rule \<noteq> ''mapping_rule''"
  proof
    assume "id_field rule = ''mapping_rule''"
    then have "last (id_field rule) = CHR ''e''" by simp
    then show False by (simp add: id_field_def)
  qed
  show "map_of r ''mapping_rule'' = Some (VStr (''RuleMapper:'' @ rule_name rule))"
    by (simp add: r update_conv')
  show "map_of r (type_field rule) = Some (VInt (tgt_type_concept_id (rule_target rule)))"
    if "type_field rule \<notin> fm_target ` set (rule_fields rule)"
    using create_record_fields_other_key [OF rec that] mr_type
    by (simp add: r update_conv' initial_record_def)
  show "map_of r ''person_id'' = Some (VInt pid)"
    if "''person_id'' \<notin> fm_target ` set (rule_fields rule)"
    using create_record_fields_other_key [OF rec that] type_field_not_person_id [of rule]
    by (simp add: r update_conv' initial_record_def)
  show "map_of r (id_field rule) = Some (VInt rid)"
    if "id_field rule \<notin> fm_target ` set (rule_fields rule)"
      and "id_field rule \<noteq> ''person_id''" and "id_field rule \<noteq> type_field rule"
    using create_record_fields_other_key [OF rec that(1)] that(2,3) mr_id
    by (simp add: r update_conv' initial_record_def)
qed

lemma map_entry_records:
  assumes "map_entry X vocab rule entry pid vm er = Inr recs" and "i < length recs"
  shows "\<exists>e base_id cids. entry = Some e \<and> engine_generate_id X rule e pid = Inr base_id \<and>
           length recs = length cids \<and>
           create_record X vocab rule e pid (base_id + int i) (cids ! i) vm er = Some (recs ! i)"
proof -
  from assms(2) have ne: "recs \<noteq> []" by auto
  have inc: "should_include_entry entry"
    using assms(1) ne map_entry_excluded [of entry X vocab rule pid vm er] by auto
  then obtain e where e: "entry = Some e"
    by (cases entry) (simp_all add: should_include_entry_def)
  from assms(1) inc e have m: "then_do (extract_concept_ids X vocab rule e er) (\<lambda>found.
       if found = [] \<and> er then Inr []
       else
         (let cids = (if found = [] then [0] else found)
          in if src_conditions (rule_source rule) \<noteq> [] \<and>
                \<not> check_conditions vocab (src_conditions (rule_source rule)) e (hd cids)
             then Inr []
             else
               then_do (engine_generate_id X rule e pid) (\<lambda>base_id.
                 Inr (fan_out X vocab rule e pid base_id vm er 0 cids)))) = Inr recs"
    by (simp add: map_entry_included)
  then obtain found where found: "extract_concept_ids X vocab rule e er = Inr found"
    by (cases "extract_concept_ids X vocab rule e er") (simp_all add: then_do_def)
  define cids where "cids = (if found = [] then [0] else found)"
  from m found ne have g: "then_do (engine_generate_id X rule e pid) (\<lambda>base_id.
       Inr (fan_out X vocab rule e pid base_id vm er 0 cids)) = Inr recs"
    by (auto simp: then_do_Inr Let_def cids_def simp del: fan_out.simps split: if_splits)
  then obtain base_id where b: "engine_generate_id X rule e pid = Inr base_id"
    by (cases "engine_generate_id X rule e pid") (simp_all add: then_do_def)
  from g b have recs: "recs = fan_out X vocab rule e pid base_id vm er 0 cids"
    by (simp add: then_do_Inr)
  from ne recs have len: "length recs = length cids"
    using fan_out_all_or_nothing [of X vocab rule e pid base_id vm er 0 cids] by simp
  from len assms(2) have "create_record X vocab rule e pid (base_id + int i) (cids ! i) vm er =
      Some (recs ! i)"
    using fan_out_full [of X vocab rule e pid base_id vm er cids i] by (simp add: recs)
  with e b len show ?thesis by blast
qed


section \<open>The engine on the examples\<close>

lemma ex_included: "should_include_entry (Some example_entry)"
  by code_simp

lemma ex_intent_excluded: "\<not> should_include_entry (Some example_intent_entry)"
  by code_simp

lemma ex_cancelled_excluded: "\<not> should_include_entry (Some example_cancelled_entry)"
  by code_simp

lemma ex_unmapped_included: "should_include_entry (Some example_unmapped_entry)"
  by code_simp

lemma ex_concept_ids:
  "extract_concept_ids example_library example_vocab example_rule example_entry True =
     Inr [4193704, 201826]"
  by code_simp

lemma ex_condition_concept_ids:
  "extract_concept_ids example_library example_vocab example_condition_rule example_entry True =
     Inr [4193704, 201826]"
  by code_simp


lemma ex_unmapped_concept_ids:
  "extract_concept_ids example_library example_vocab example_rule example_unmapped_entry True =
     Inr []"
  by code_simp

lemma ex_seed:
  "engine_generate_id example_library example_rule example_entry 7 = Inr 7165066909714770287"
  by code_simp

lemma ex_unmapped_seed:
  "engine_generate_id example_library example_rule example_unmapped_entry 7 =
     Inr 7165066909714770287"
  by code_simp

lemma ex_domains:
  "mapper_get_concept_domain example_vocab 4193704 = ''Observation''"
  "mapper_get_concept_domain example_vocab 201826 = ''Condition''"
  by code_simp+

lemma ex_keys:
  "id_field example_rule = ''condition_occurrence_id''"
  "type_field example_rule = ''condition_type_concept_id''"
  "map fm_target (rule_fields example_rule) = [''condition_concept_id'', ''condition_source_value'']"
  "rule_name example_rule = ''problem_condition''"
  "tgt_type_concept_id (rule_target example_rule) = 32817"
  "src_conditions (rule_source example_rule) = []"
  by code_simp+

lemma ex_condition_conditions:
  "src_conditions (rule_source example_condition_rule) =
     [\<lparr>cond_type = ''domain_equals'', cond_field = '''', cond_value = ''Condition''\<rparr>]"
  by code_simp

lemma ex_map_entry:
  "map_entry example_library example_vocab example_rule (Some example_entry) 7 [] True =
     Inr [[(''condition_occurrence_id'', VInt 7165066909714770287), (''person_id'', VInt 7),
           (''condition_type_concept_id'', VInt 32817), (''condition_concept_id'', VInt 4193704),
           (''condition_source_value'', VStr ''Type 2 diabetes''),
           (''mapping_rule'', VStr ''RuleMapper:problem_condition'')],
          [(''condition_occurrence_id'', VInt 7165066909714770288), (''person_id'', VInt 7),
           (''condition_type_concept_id'', VInt 32817), (''condition_concept_id'', VInt 201826),
           (''condition_source_value'', VStr ''Type 2 diabetes''),
           (''mapping_rule'', VStr ''RuleMapper:problem_condition'')]]"
  by code_simp

lemma ex_unmapped_map_entry:
  "map_entry example_library example_vocab example_rule (Some example_unmapped_entry) 7 [] False =
     Inr [[(''condition_occurrence_id'', VInt 7165066909714770287), (''person_id'', VInt 7),
           (''condition_type_concept_id'', VInt 32817), (''condition_concept_id'', VInt 0),
           (''condition_source_value'', VStr ''Local finding''),
           (''mapping_rule'', VStr ''RuleMapper:problem_condition'')]]"
  by code_simp


section \<open>The inclusion filter\<close>

text \<open>
  C5. \<open>should_include_entry\<close> holds exactly for a present node whose \<open>moodCode\<close> attribute
  is absent, empty or \<open>EVN\<close> and whose first \<open>statusCode\<close> child, if there is one, has a
  \<open>code\<close> attribute that is absent, empty, \<open>completed\<close> or \<open>active\<close>. An absent node is
  excluded, and \<open>map_entry\<close> returns no record for an excluded entry.
\<close>

theorem should_include_entry_iff:
  "(should_include_entry node \<longleftrightarrow>
      (\<exists>n. node = Some n \<and>
           (elem_get n ''moodCode'' '''' = '''' \<or> elem_get n ''moodCode'' '''' = ''EVN'') \<and>
           (case elem_find n ''statusCode'' of
              None \<Rightarrow> True
            | Some status_node \<Rightarrow>
                elem_get status_node ''code'' '''' \<in> {'''', ''completed'', ''active''}))) \<and>
   \<not> should_include_entry None \<and>
   (\<not> should_include_entry node \<longrightarrow> map_entry X vocab rule node pid vm er = Inr [])"
  by (auto simp: should_include_entry_def map_entry_def Let_def split: option.splits)

theorem should_include_entry_iff_witness:
  "\<not> should_include_entry (Some example_intent_entry) \<and>
   map_entry example_library example_vocab example_rule (Some example_intent_entry) 7 [] True = Inr [] \<and>
   \<not> should_include_entry (Some example_cancelled_entry) \<and>
   map_entry example_library example_vocab example_rule (Some example_cancelled_entry) 7 [] True =
     Inr []"
  using should_include_entry_iff
      [of "Some example_intent_entry" example_library example_vocab example_rule 7 "[]" True]
    should_include_entry_iff
      [of "Some example_cancelled_entry" example_library example_vocab example_rule 7 "[]" True]
    ex_intent_excluded ex_cancelled_excluded
  by simp

section \<open>Conditions\<close>

text \<open>
  C4. For an included entry whose vocabulary field resolves to the concept ids \<open>c # cs\<close> and
  a rule with conditions: the conditions hold exactly when every \<open>domain_equals\<close> condition
  names the domain of \<open>c\<close> and no \<open>domain_not_equals\<close> condition names it, so only the first
  concept id is read; when they fail, \<open>map_entry\<close> returns no record, whatever \<open>cs\<close> is;
  when they hold, it goes on to the seed id and the records of all of \<open>c # cs\<close>.
\<close>

theorem map_entry_conditions_first_concept:
  assumes "should_include_entry (Some e)"
    and "extract_concept_ids X vocab rule e er = Inr (c # cs)"
    and "src_conditions (rule_source rule) \<noteq> []"
  shows "(check_conditions vocab (src_conditions (rule_source rule)) e c \<longleftrightarrow>
            (\<forall>cond \<in> set (src_conditions (rule_source rule)).
               (cond_type cond = ''domain_equals'' \<longrightarrow>
                  mapper_get_concept_domain vocab c = cond_value cond) \<and>
               (cond_type cond = ''domain_not_equals'' \<longrightarrow>
                  mapper_get_concept_domain vocab c \<noteq> cond_value cond))) \<and>
         (\<not> check_conditions vocab (src_conditions (rule_source rule)) e c \<longrightarrow>
            map_entry X vocab rule (Some e) pid vm er = Inr []) \<and>
         (check_conditions vocab (src_conditions (rule_source rule)) e c \<longrightarrow>
            map_entry X vocab rule (Some e) pid vm er =
              then_do (engine_generate_id X rule e pid) (\<lambda>base_id.
                Inr (fan_out X vocab rule e pid base_id vm er 0 (c # cs))))"
  using assms check_conditions_iff [of vocab "src_conditions (rule_source rule)" e c]
  by (simp add: map_entry_included then_do_Inr)

theorem map_entry_conditions_first_concept_witness:
  "should_include_entry (Some example_entry) \<and>
   extract_concept_ids example_library example_vocab example_condition_rule example_entry True =
     Inr [4193704, 201826] \<and>
   src_conditions (rule_source example_condition_rule) \<noteq> [] \<and>
   mapper_get_concept_domain example_vocab 4193704 = ''Observation'' \<and>
   mapper_get_concept_domain example_vocab 201826 = ''Condition'' \<and>
   \<not> check_conditions example_vocab (src_conditions (rule_source example_condition_rule))
       example_entry 4193704 \<and>
   map_entry example_library example_vocab example_condition_rule (Some example_entry) 7 [] True =
     Inr []"
proof -
  have ne: "src_conditions (rule_source example_condition_rule) \<noteq> []"
    by (simp add: ex_condition_conditions)
  note t = map_entry_conditions_first_concept
    [OF ex_included ex_condition_concept_ids ne, of 7 "[]"]
  have "\<not> check_conditions example_vocab (src_conditions (rule_source example_condition_rule))
      example_entry 4193704"
    using t by (simp add: ex_condition_conditions ex_domains)
  with t ne show ?thesis
    by (simp add: ex_included ex_condition_concept_ids ex_domains)
qed

section \<open>The placeholder concept id\<close>

text \<open>
  C6. For an included entry for which no concept id resolves, that is, for which the
  extraction with required entries finds none: with \<open>entries_required\<close> true \<open>map_entry\<close>
  returns no record; with \<open>entries_required\<close> false it goes on with the single concept id
  \<open>0\<close>, to the conditions, the seed id and the one record of that concept id.
\<close>

theorem map_entry_placeholder:
  assumes "should_include_entry (Some e)"
    and "extract_concept_ids X vocab rule e True = Inr []"
  shows "map_entry X vocab rule (Some e) pid vm True = Inr [] \<and>
         map_entry X vocab rule (Some e) pid vm False =
           (if src_conditions (rule_source rule) \<noteq> [] \<and>
               \<not> check_conditions vocab (src_conditions (rule_source rule)) e 0
            then Inr []
            else then_do (engine_generate_id X rule e pid) (\<lambda>base_id.
                   Inr (fan_out X vocab rule e pid base_id vm False 0 [0])))"
proof -
  from assms(2) have "extract_concept_ids X vocab rule e False = Inr [] \<or>
      extract_concept_ids X vocab rule e False = Inr [0]"
    unfolding extract_concept_ids_def by (rule extract_concept_ids_loop_not_required)
  then show ?thesis using assms
    by (auto simp: map_entry_included then_do_Inr)
qed

theorem map_entry_placeholder_witness:
  "should_include_entry (Some example_unmapped_entry) \<and>
   extract_concept_ids example_library example_vocab example_rule example_unmapped_entry True =
     Inr [] \<and>
   map_entry example_library example_vocab example_rule (Some example_unmapped_entry) 7 [] True =
     Inr [] \<and>
   map_entry example_library example_vocab example_rule (Some example_unmapped_entry) 7 [] False =
     Inr [[(''condition_occurrence_id'', VInt 7165066909714770287), (''person_id'', VInt 7),
           (''condition_type_concept_id'', VInt 32817), (''condition_concept_id'', VInt 0),
           (''condition_source_value'', VStr ''Local finding''),
           (''mapping_rule'', VStr ''RuleMapper:problem_condition'')]]"
proof -
  have f: "fan_out example_library example_vocab example_rule example_unmapped_entry 7
      7165066909714770287 [] False 0 [0] =
     [[(''condition_occurrence_id'', VInt 7165066909714770287), (''person_id'', VInt 7),
       (''condition_type_concept_id'', VInt 32817), (''condition_concept_id'', VInt 0),
       (''condition_source_value'', VStr ''Local finding''),
       (''mapping_rule'', VStr ''RuleMapper:problem_condition'')]]"
    by code_simp
  note t = map_entry_placeholder [OF ex_unmapped_included ex_unmapped_concept_ids, of 7 "[]"]
  from t have "map_entry example_library example_vocab example_rule (Some example_unmapped_entry)
      7 [] False =
    Inr (fan_out example_library example_vocab example_rule example_unmapped_entry 7
      7165066909714770287 [] False 0 [0])"
    by (simp add: ex_keys ex_unmapped_seed then_do_Inr del: fan_out.simps)
  with t f show ?thesis
    by (simp add: ex_unmapped_included ex_unmapped_concept_ids del: fan_out.simps)
qed

section \<open>The fan-out over the resolved concept ids\<close>

text \<open>
  C3, as the claim states it, fails where entries are not required: the required field
  \<open>unit_concept_id\<close> of \<open>example_unit_rule\<close> has no value on \<open>example_entry\<close>, and both records
  are returned all the same, without that field.
\<close>

theorem map_entry_required_field_kept:
  "fm_target (last (rule_fields example_unit_rule)) = ''unit_concept_id'' \<and>
   \<not> fm_optional (last (rule_fields example_unit_rule)) \<and>
   extract_field_value example_library example_vocab example_entry
     (last (rule_fields example_unit_rule)) 4193704 [] = Inr None \<and>
   map_entry example_library example_vocab example_unit_rule (Some example_entry) 7 [] False =
     Inr [[(''condition_occurrence_id'', VInt 7165066909714770287), (''person_id'', VInt 7),
           (''condition_type_concept_id'', VInt 32817), (''condition_concept_id'', VInt 4193704),
           (''condition_source_value'', VStr ''Type 2 diabetes''),
           (''mapping_rule'', VStr ''RuleMapper:problem_condition'')],
          [(''condition_occurrence_id'', VInt 7165066909714770288), (''person_id'', VInt 7),
           (''condition_type_concept_id'', VInt 32817), (''condition_concept_id'', VInt 201826),
           (''condition_source_value'', VStr ''Type 2 diabetes''),
           (''mapping_rule'', VStr ''RuleMapper:problem_condition'')]]"
  by code_simp

text \<open>
  C3, amended. For an included entry whose vocabulary field resolves to the concept ids
  \<open>cids\<close>, not empty, whose conditions are absent or hold, and whose seed id is \<open>base_id\<close>:
  \<open>map_entry\<close> builds one candidate record per concept id in order, the candidate at
  position \<open>i\<close> with the record id \<open>base_id + i\<close>, and returns the candidates that are
  records. A candidate is no record exactly when entries are required and a field that is
  not optional has no value for it. A field has a value for one concept id if and only if
  it has one for every other, so the result is empty or holds all the candidates.
\<close>

theorem map_entry_fan_out:
  assumes "should_include_entry (Some e)"
    and "extract_concept_ids X vocab rule e er = Inr cids"
    and "cids \<noteq> []"
    and "src_conditions (rule_source rule) = [] \<or>
         check_conditions vocab (src_conditions (rule_source rule)) e (hd cids)"
    and "engine_generate_id X rule e pid = Inr base_id"
  shows "\<exists>recs. map_entry X vocab rule (Some e) pid vm er = Inr recs \<and>
           recs = List.map_filter
                    (\<lambda>(i, c). create_record X vocab rule e pid (base_id + int i) c vm er)
                    (enumerate 0 cids) \<and>
           (\<forall>i < length cids.
              create_record X vocab rule e pid (base_id + int i) (cids ! i) vm er = None \<longleftrightarrow>
                er \<and> (\<exists>fm \<in> set (rule_fields rule). \<not> fm_optional fm \<and>
                        (\<forall>v. extract_field_value X vocab e fm (cids ! i) vm \<noteq> Inr (Some v)))) \<and>
           (recs = [] \<or>
            length recs = length cids \<and>
            (\<forall>i < length cids.
               create_record X vocab rule e pid (base_id + int i) (cids ! i) vm er =
                 Some (recs ! i)))"
proof -
  let ?recs = "fan_out X vocab rule e pid base_id vm er 0 cids"
  have m: "map_entry X vocab rule (Some e) pid vm er = Inr ?recs"
    using assms by (auto simp: map_entry_included then_do_Inr)
  have "?recs = [] \<or> length ?recs = length cids"
    by (rule fan_out_all_or_nothing)
  then have "?recs = [] \<or> length ?recs = length cids \<and>
      (\<forall>i < length cids.
         create_record X vocab rule e pid (base_id + int i) (cids ! i) vm er = Some (?recs ! i))"
    using fan_out_full [of X vocab rule e pid base_id vm er cids] by blast
  with m show ?thesis by (simp add: fan_out_enumerate create_record_None_iff no_value_iff)
qed

theorem map_entry_fan_out_witness:
  "should_include_entry (Some example_entry) \<and>
   extract_concept_ids example_library example_vocab example_rule example_entry True =
     Inr [4193704, 201826] \<and>
   engine_generate_id example_library example_rule example_entry 7 = Inr 7165066909714770287 \<and>
   create_record example_library example_vocab example_rule example_entry 7
     7165066909714770287 4193704 [] True =
     Some [(''condition_occurrence_id'', VInt 7165066909714770287), (''person_id'', VInt 7),
           (''condition_type_concept_id'', VInt 32817), (''condition_concept_id'', VInt 4193704),
           (''condition_source_value'', VStr ''Type 2 diabetes''),
           (''mapping_rule'', VStr ''RuleMapper:problem_condition'')] \<and>
   create_record example_library example_vocab example_rule example_entry 7
     7165066909714770288 201826 [] True =
     Some [(''condition_occurrence_id'', VInt 7165066909714770288), (''person_id'', VInt 7),
           (''condition_type_concept_id'', VInt 32817), (''condition_concept_id'', VInt 201826),
           (''condition_source_value'', VStr ''Type 2 diabetes''),
           (''mapping_rule'', VStr ''RuleMapper:problem_condition'')]"
proof -
  have ne: "[4193704, 201826 :: int] \<noteq> []" by simp
  have c: "src_conditions (rule_source example_rule) = [] \<or>
      check_conditions example_vocab (src_conditions (rule_source example_rule)) example_entry
        (hd [4193704, 201826])"
    by (simp add: ex_keys)
  from map_entry_fan_out [OF ex_included ex_concept_ids ne c ex_seed, of "[]"]
  obtain recs where
    m: "map_entry example_library example_vocab example_rule (Some example_entry) 7 [] True =
          Inr recs"
    and all: "recs = [] \<or>
      length recs = length [4193704, 201826 :: int] \<and>
      (\<forall>i < length [4193704, 201826 :: int].
         create_record example_library example_vocab example_rule example_entry 7
           (7165066909714770287 + int i) ([4193704, 201826] ! i) [] True = Some (recs ! i))"
    by blast
  from m ex_map_entry have recs: "recs =
     [[(''condition_occurrence_id'', VInt 7165066909714770287), (''person_id'', VInt 7),
       (''condition_type_concept_id'', VInt 32817), (''condition_concept_id'', VInt 4193704),
       (''condition_source_value'', VStr ''Type 2 diabetes''),
       (''mapping_rule'', VStr ''RuleMapper:problem_condition'')],
      [(''condition_occurrence_id'', VInt 7165066909714770288), (''person_id'', VInt 7),
       (''condition_type_concept_id'', VInt 32817), (''condition_concept_id'', VInt 201826),
       (''condition_source_value'', VStr ''Type 2 diabetes''),
       (''mapping_rule'', VStr ''RuleMapper:problem_condition'')]]"
    by simp
  with all have each: "\<forall>i < length [4193704, 201826 :: int].
      create_record example_library example_vocab example_rule example_entry 7
        (7165066909714770287 + int i) ([4193704, 201826] ! i) [] True = Some (recs ! i)"
    by simp
  from each [rule_format, of 0]
  have a0: "create_record example_library example_vocab example_rule example_entry 7
      7165066909714770287 4193704 [] True = Some (recs ! 0)"
    by simp
  from each [rule_format, of 1]
  have a1: "create_record example_library example_vocab example_rule example_entry 7
      7165066909714770288 201826 [] True = Some (recs ! 1)"
    by simp
  from a0 a1 show ?thesis
    using ex_included ex_concept_ids ex_seed by (simp add: recs)
qed

section \<open>Exceptions\<close>




section \<open>The keys of a record\<close>

text \<open>
  C10, as the claim states it, fails: \<open>example_person_id_rule\<close> has a field mapping with the
  target \<open>person_id\<close>, whose value replaces the person id \<open>7\<close> in both records.
\<close>

theorem map_entry_person_id_overwritten:
  "map_entry example_library example_vocab example_person_id_rule (Some example_entry) 7 [] True =
     Inr [[(''condition_occurrence_id'', VInt 7165066909714770287), (''person_id'', VStr ''abc''),
           (''condition_type_concept_id'', VInt 32817), (''condition_concept_id'', VInt 4193704),
           (''condition_source_value'', VStr ''Type 2 diabetes''),
           (''mapping_rule'', VStr ''RuleMapper:problem_condition'')],
          [(''condition_occurrence_id'', VInt 7165066909714770288), (''person_id'', VStr ''abc''),
           (''condition_type_concept_id'', VInt 32817), (''condition_concept_id'', VInt 201826),
           (''condition_source_value'', VStr ''Type 2 diabetes''),
           (''mapping_rule'', VStr ''RuleMapper:problem_condition'')]]"
  by code_simp

text \<open>
  C10, amended. In every record that \<open>map_entry\<close> returns, \<open>mapping_rule\<close> is bound to
  \<open>RuleMapper:\<close> followed by the rule's name. The type key is bound to the rule's type
  concept id if no field mapping targets it, and \<open>person_id\<close> to the person id if no field
  mapping targets it. The id key is bound to the seed id plus the record's position if no
  field mapping targets it and it is neither \<open>person_id\<close> nor the type key.
\<close>

theorem map_entry_reserved_keys:
  assumes "map_entry X vocab rule entry pid vm er = Inr recs"
    and "i < length recs"
    and "id_key = tgt_table (rule_target rule) @ ''_id''"
    and "type_key =
           hd (split_char CHR ''_'' (tgt_table (rule_target rule))) @ ''_type_concept_id''"
  shows "map_of (recs ! i) ''mapping_rule'' = Some (VStr (''RuleMapper:'' @ rule_name rule)) \<and>
         (type_key \<notin> fm_target ` set (rule_fields rule) \<longrightarrow>
            map_of (recs ! i) type_key = Some (VInt (tgt_type_concept_id (rule_target rule)))) \<and>
         (''person_id'' \<notin> fm_target ` set (rule_fields rule) \<longrightarrow>
            map_of (recs ! i) ''person_id'' = Some (VInt pid)) \<and>
         (id_key \<notin> fm_target ` set (rule_fields rule) \<and>
          id_key \<noteq> ''person_id'' \<and> id_key \<noteq> type_key \<longrightarrow>
            (\<exists>e base_id. entry = Some e \<and> engine_generate_id X rule e pid = Inr base_id \<and>
               map_of (recs ! i) id_key = Some (VInt (base_id + int i))))"
proof -
  from map_entry_records [OF assms(1,2)] obtain e base_id cids where
    e: "entry = Some e" and b: "engine_generate_id X rule e pid = Inr base_id"
    and c: "create_record X vocab rule e pid (base_id + int i) (cids ! i) vm er = Some (recs ! i)"
    by blast
  have i: "id_key = id_field rule" and t: "type_key = type_field rule"
    using assms(3,4) by (simp_all add: id_field_def type_field_def)
  from create_record_keys [OF c] e b show ?thesis
    unfolding i t by blast
qed

theorem map_entry_reserved_keys_witness:
  "map_entry example_library example_vocab example_rule (Some example_unmapped_entry) 7 [] False =
     Inr [[(''condition_occurrence_id'', VInt 7165066909714770287), (''person_id'', VInt 7),
           (''condition_type_concept_id'', VInt 32817), (''condition_concept_id'', VInt 0),
           (''condition_source_value'', VStr ''Local finding''),
           (''mapping_rule'', VStr ''RuleMapper:problem_condition'')]] \<and>
   map_of [(''condition_occurrence_id'', VInt 7165066909714770287), (''person_id'', VInt 7),
           (''condition_type_concept_id'', VInt 32817), (''condition_concept_id'', VInt 0),
           (''condition_source_value'', VStr ''Local finding''),
           (''mapping_rule'', VStr ''RuleMapper:problem_condition'')] ''condition_occurrence_id'' =
     Some (VInt (7165066909714770287 + int 0)) \<and>
   map_of [(''condition_occurrence_id'', VInt 7165066909714770287), (''person_id'', VInt 7),
           (''condition_type_concept_id'', VInt 32817), (''condition_concept_id'', VInt 0),
           (''condition_source_value'', VStr ''Local finding''),
           (''mapping_rule'', VStr ''RuleMapper:problem_condition'')] ''condition_type_concept_id'' =
     Some (VInt 32817)"
proof -
  let ?r = "[(''condition_occurrence_id'', VInt 7165066909714770287), (''person_id'', VInt 7),
      (''condition_type_concept_id'', VInt 32817), (''condition_concept_id'', VInt 0),
      (''condition_source_value'', VStr ''Local finding''),
      (''mapping_rule'', VStr ''RuleMapper:problem_condition'')]"
  have ik: "''condition_occurrence_id'' = tgt_table (rule_target example_rule) @ ''_id''"
    by code_simp
  have tk: "''condition_type_concept_id'' =
      hd (split_char CHR ''_'' (tgt_table (rule_target example_rule))) @ ''_type_concept_id''"
    by code_simp
  have t: "''condition_type_concept_id'' \<notin> fm_target ` set (rule_fields example_rule)"
    unfolding set_map [symmetric] ex_keys(3) by simp
  have d: "''condition_occurrence_id'' \<notin> fm_target ` set (rule_fields example_rule) \<and>
      ''condition_occurrence_id'' \<noteq> ''person_id'' \<and>
      ''condition_occurrence_id'' \<noteq> ''condition_type_concept_id''"
    unfolding set_map [symmetric] ex_keys(3) by simp
  have l: "0 < length [?r]"
    by simp
  note k = map_entry_reserved_keys [OF ex_unmapped_map_entry l ik tk]
  from k t have "map_of ([?r] ! 0) ''condition_type_concept_id'' =
      Some (VInt (tgt_type_concept_id (rule_target example_rule)))"
    by blast
  then have ty: "map_of ?r ''condition_type_concept_id'' = Some (VInt 32817)"
    by (simp only: nth_Cons_0 ex_keys(5))
  from k d obtain e base_id where
    e: "Some example_unmapped_entry = Some e"
    and b: "engine_generate_id example_library example_rule e 7 = Inr base_id"
    and i: "map_of ([?r] ! 0) ''condition_occurrence_id'' = Some (VInt (base_id + int 0))"
    by blast
  from e have "e = example_unmapped_entry" by simp
  with b ex_unmapped_seed have "base_id = 7165066909714770287" by simp
  with i have "map_of ?r ''condition_occurrence_id'' = Some (VInt (7165066909714770287 + int 0))"
    by (simp only: nth_Cons_0)
  with ty ex_unmapped_map_entry show ?thesis
    by (intro conjI)
qed

section \<open>Properties of the rule loader\<close>









end
